theory Spec2Isabelle
  imports Complex_Main
begin

section \<open>Python values\<close>

text \<open>
  The gateway of \<^verbatim>\<open>app.py\<close> moves JSON values between an HTTP request, the Gradio
  client and an HTTP response. A Python float is a finite value or one of the three
  special values that \<^verbatim>\<open>json.loads\<close> and \<^verbatim>\<open>float()\<close> accept; a finite float and an
  int are compared by their exact values, so both are read as reals.
\<close>

datatype pyfloat = Finite real | PosInf | NegInf | NaN

datatype json =
    JNull
  | JBool bool
  | JInt int
  | JFloat pyfloat
  | JStr string
  | JArr "json list"
  | JObj "(string \<times> json) list"

text \<open>Exceptions: the class (subclasses of a builtin are read as the builtin) and \<^verbatim>\<open>str(e)\<close>.\<close>

datatype exn_class =
    ConnectionError | TypeError | ValueError | AttributeError | OverflowError
  | OtherException string

datatype pyexn = PyExn exn_class string

fun exn_class_of :: "pyexn \<Rightarrow> exn_class" where
  "exn_class_of (PyExn c m) = c"

fun str_exn :: "pyexn \<Rightarrow> string" where
  "str_exn (PyExn c m) = m"

text \<open>Truthiness, as \<^verbatim>\<open>if not x\<close> and \<^verbatim>\<open>x or y\<close> read it.\<close>

fun truthy :: "json \<Rightarrow> bool" where
  "truthy JNull = False"
| "truthy (JBool b) = b"
| "truthy (JInt i) = (i \<noteq> 0)"
| "truthy (JFloat (Finite r)) = (r \<noteq> 0)"
| "truthy (JFloat f) = True"
| "truthy (JStr s) = (s \<noteq> [])"
| "truthy (JArr xs) = (xs \<noteq> [])"
| "truthy (JObj kvs) = (kvs \<noteq> [])"

definition py_or :: "json \<Rightarrow> json \<Rightarrow> json" where
  "py_or a b = (if truthy a then a else b)"

fun type_name :: "json \<Rightarrow> string" where
  "type_name JNull = ''NoneType''"
| "type_name (JBool b) = ''bool''"
| "type_name (JInt i) = ''int''"
| "type_name (JFloat f) = ''float''"
| "type_name (JStr s) = ''str''"
| "type_name (JArr xs) = ''list''"
| "type_name (JObj kvs) = ''dict''"

text \<open>The numeric value of a value that takes part in a comparison (a bool is an int).\<close>

fun num_of :: "json \<Rightarrow> pyfloat option" where
  "num_of (JBool b) = Some (Finite (if b then 1 else 0))"
| "num_of (JInt i) = Some (Finite (of_int i))"
| "num_of (JFloat f) = Some f"
| "num_of v = None"

fun le_pyfloat :: "pyfloat \<Rightarrow> pyfloat \<Rightarrow> bool" where
  "le_pyfloat NaN y = False"
| "le_pyfloat x NaN = False"
| "le_pyfloat NegInf y = True"
| "le_pyfloat x PosInf = True"
| "le_pyfloat (Finite a) (Finite b) = (a \<le> b)"
| "le_pyfloat x y = False"

text \<open>
  \<^verbatim>\<open>lo <= x <= hi\<close> with numeric literals \<open>lo\<close> and \<open>hi\<close>: the first comparison raises
  TypeError when \<open>x\<close> is not a number, and the second one is evaluated only when the first
  one holds. \<open>lo_ty\<close> is the type name of the literal \<open>lo\<close>, for the message.
\<close>

definition chained_le :: "string \<Rightarrow> real \<Rightarrow> json \<Rightarrow> real \<Rightarrow> pyexn + bool" where
  "chained_le lo_ty lo x hi =
     (case num_of x of
        None \<Rightarrow> Inl (PyExn TypeError
          (''<= not supported between instances of '' @ lo_ty @ '' and '' @ type_name x))
      | Some v \<Rightarrow> Inr (le_pyfloat (Finite lo) v \<and> le_pyfloat v (Finite hi)))"

text \<open>\<^verbatim>\<open>d.get(k, default)\<close> on a parsed JSON object.\<close>

definition dict_get :: "(string \<times> json) list \<Rightarrow> string \<Rightarrow> json \<Rightarrow> json" where
  "dict_get kvs k dflt = (case map_of kvs k of None \<Rightarrow> dflt | Some v \<Rightarrow> v)"

section \<open>The world outside the process\<close>

text \<open>
  Every call that leaves the process is recorded in a trace: creating a Gradio client for
  a URL, a \<^verbatim>\<open>predict\<close> call on a client handle with its keyword arguments, and a
  \<^verbatim>\<open>time.sleep\<close>. What the \<open>n\<close>-th recorded call does (return a value or raise) is
  decided by the world, as are the wall clock and what \<^verbatim>\<open>float()\<close> makes of a string.
\<close>

datatype event =
    Connect string
  | Predict nat "(string \<times> json) list"
  | Sleep json

datatype outcome = Returns json | Raises pyexn

record world =
  outcomes :: "nat \<Rightarrow> outcome"
  clock :: "nat \<Rightarrow> string"
  float_of_str :: "string \<Rightarrow> pyfloat option"
  trace :: "event list"

definition now :: "world \<Rightarrow> string" where
  "now w = clock w (length (trace w))"

definition external :: "event \<Rightarrow> world \<Rightarrow> outcome \<times> world" where
  "external ev w = (outcomes w (length (trace w)), w\<lparr>trace := trace w @ [ev]\<rparr>)"

text \<open>
  \<^verbatim>\<open>time.sleep(d)\<close>: TypeError for a value that is not a number, ValueError for NaN,
  OverflowError for an infinity and for a length whose nanoseconds do not fit the signed
  64-bit counter (with one message for a float and another for an int), ValueError for
  any other negative length; otherwise the process sleeps.
\<close>

definition sleep_overflow :: "json \<Rightarrow> pyexn" where
  "sleep_overflow d =
     (case d of
        JFloat f \<Rightarrow> PyExn OverflowError ''timestamp out of range for platform time_t''
      | _ \<Rightarrow> PyExn OverflowError ''timestamp too large to convert to C _PyTime_t'')"

definition sleep :: "json \<Rightarrow> world \<Rightarrow> (pyexn + unit) \<times> world" where
  "sleep d w =
     (case num_of d of
        None \<Rightarrow> (Inl (PyExn TypeError (type_name d @ '' object cannot be interpreted as an integer'')), w)
      | Some NaN \<Rightarrow> (Inl (PyExn ValueError ''Invalid value NaN (not a number)''), w)
      | Some NegInf \<Rightarrow> (Inl (sleep_overflow d), w)
      | Some PosInf \<Rightarrow> (Inl (sleep_overflow d), w)
      | Some (Finite r) \<Rightarrow>
          if r * 10 ^ 9 < - (2 ^ 63) \<or> 2 ^ 63 \<le> r * 10 ^ 9 then (Inl (sleep_overflow d), w)
          else if r < 0 then (Inl (PyExn ValueError ''sleep length must be non-negative''), w)
          else (Inr (), w\<lparr>trace := trace w @ [Sleep d]\<rparr>))"

section \<open>GradioAPIClient\<close>

text \<open>
  The connection handle is the position of the \<^verbatim>\<open>Client(url)\<close> call that made it.
  The lock of \<^verbatim>\<open>_connect\<close> is not modelled: requests are handled one at a time here.
  Logger calls write to the log only and are left out, except for the one expression
  inside a logger call that can raise (\<^verbatim>\<open>user_input[:50]\<close>).
\<close>

record gradio_api_client =
  api_url :: string
  client :: "nat option"
  last_connected :: "string option"

definition GradioAPIClient_connect ::
  "gradio_api_client \<Rightarrow> world \<Rightarrow> bool \<times> gradio_api_client \<times> world" where
  "GradioAPIClient_connect self w =
     (case external (Connect (api_url self)) w of
        (Returns h, w') \<Rightarrow>
          (True, self\<lparr>client := Some (length (trace w)), last_connected := Some (now w')\<rparr>, w')
      | (Raises e, w') \<Rightarrow> (False, self\<lparr>client := None\<rparr>, w'))"

definition GradioAPIClient_init :: "string \<Rightarrow> world \<Rightarrow> gradio_api_client \<times> world" where
  "GradioAPIClient_init url w =
     (case GradioAPIClient_connect \<lparr>api_url = url, client = None, last_connected = None\<rparr> w of
        (ok, self, w') \<Rightarrow> (self, w'))"

definition GradioAPIClient_ensure_connection ::
  "gradio_api_client \<Rightarrow> world \<Rightarrow> (pyexn + unit) \<times> gradio_api_client \<times> world" where
  "GradioAPIClient_ensure_connection self w =
     (if client self = None then
        (case GradioAPIClient_connect self w of
           (ok, self', w') \<Rightarrow>
             if \<not> ok then (Inl (PyExn ConnectionError ''Unable to connect to Gradio API''), self', w')
             else (Inr (), self', w'))
      else (Inr (), self, w))"

text \<open>\<^verbatim>\<open>self.client.predict(**kwargs)\<close>; on an absent handle the attribute lookup raises.\<close>

definition client_predict ::
  "gradio_api_client \<Rightarrow> (string \<times> json) list \<Rightarrow> world \<Rightarrow> outcome \<times> world" where
  "client_predict self kwargs w =
     (case client self of
        None \<Rightarrow> (Raises (PyExn AttributeError ''NoneType object has no attribute predict''), w)
      | Some h \<Rightarrow> external (Predict h kwargs) w)"

text \<open>
  \<^verbatim>\<open>user_input[:50]\<close> in the first logger call of \<^verbatim>\<open>generate_response\<close>: a string or a
  list can be sliced, any other value raises TypeError inside the \<^verbatim>\<open>try\<close>.
\<close>

fun sliceable :: "json \<Rightarrow> bool" where
  "sliceable (JStr s) = True"
| "sliceable (JArr xs) = True"
| "sliceable v = False"

definition slice_error :: "json \<Rightarrow> pyexn" where
  "slice_error v =
     (case v of
        JObj kvs \<Rightarrow> PyExn TypeError ''unhashable type: slice''
      | _ \<Rightarrow> PyExn TypeError (type_name v @ '' object is not subscriptable''))"

definition predict_kwargs :: "json \<Rightarrow> json \<Rightarrow> json \<Rightarrow> json \<Rightarrow> json \<Rightarrow> (string \<times> json) list" where
  "predict_kwargs user_input max_length temperature top_p endpoint =
     [(''user_input'', user_input), (''max_length'', max_length),
      (''temperature'', temperature), (''top_p'', top_p), (''api_name'', endpoint)]"

definition GradioAPIClient_generate_response ::
  "gradio_api_client \<Rightarrow> json \<Rightarrow> json \<Rightarrow> json \<Rightarrow> json \<Rightarrow> json \<Rightarrow> world
     \<Rightarrow> (pyexn + json) \<times> gradio_api_client \<times> world" where
  "GradioAPIClient_generate_response self user_input max_length temperature top_p endpoint w =
     (case GradioAPIClient_ensure_connection self w of
        (Inl e, self1, w1) \<Rightarrow> (Inl e, self1, w1)
      | (Inr u, self1, w1) \<Rightarrow>
          (case (if sliceable user_input
                 then client_predict self1
                        (predict_kwargs user_input max_length temperature top_p endpoint) w1
                 else (Raises (slice_error user_input), w1)) of
             (Returns result, w2) \<Rightarrow> (Inr result, self1, w2)
           | (Raises e, w2) \<Rightarrow>
               (case GradioAPIClient_connect self1 w2 of
                  (True, self3, w3) \<Rightarrow>
                    (case client_predict self3
                            (predict_kwargs user_input max_length temperature top_p endpoint) w3 of
                       (Returns result, w4) \<Rightarrow> (Inr result, self3, w4)
                     | (Raises retry_error, w4) \<Rightarrow> (Inl retry_error, self3, w4))
                | (False, self3, w3) \<Rightarrow> (Inl e, self3, w3))))"

definition GradioAPIClient_get_lambda_data ::
  "gradio_api_client \<Rightarrow> world \<Rightarrow> (pyexn + json) \<times> gradio_api_client \<times> world" where
  "GradioAPIClient_get_lambda_data self w =
     (case GradioAPIClient_ensure_connection self w of
        (Inl e, self1, w1) \<Rightarrow> (Inl e, self1, w1)
      | (Inr u, self1, w1) \<Rightarrow>
          (case client_predict self1 [(''api_name'', JStr ''/lambda'')] w1 of
             (Returns result, w2) \<Rightarrow> (Inr result, self1, w2)
           | (Raises e, w2) \<Rightarrow> (Inl e, self1, w2)))"

section \<open>Configuration, requests and responses\<close>

text \<open>
  The module-level constants read from the environment at start-up. \<open>API_KEY\<close> is
  \<^verbatim>\<open>os.getenv('API_KEY')\<close>: absent, or a string that may be empty.
\<close>

record config =
  API_URL :: string
  DEFAULT_MAX_LENGTH :: pyfloat
  DEFAULT_TEMPERATURE :: pyfloat
  DEFAULT_TOP_P :: pyfloat
  API_KEY :: "string option"

text \<open>
  What a handler reads of a Flask request: the headers, the query arguments and the
  result of \<^verbatim>\<open>request.get_json()\<close>, which raises or returns the parsed body.
\<close>

record request =
  headers :: "string \<rightharpoonup> string"
  args :: "string \<rightharpoonup> string"
  get_json :: "pyexn + json"

text \<open>A response is the \<^verbatim>\<open>jsonify\<close>-ed body and the status code (200 when none is given).\<close>

record response =
  body :: json
  status_code :: nat

text \<open>The process state: the global \<^verbatim>\<open>gradio_client\<close> and the world.\<close>

type_synonym st = "gradio_api_client option \<times> world"

definition init_gradio_client :: "config \<Rightarrow> world \<Rightarrow> st" where
  "init_gradio_client cfg w =
     (case GradioAPIClient_init (API_URL cfg) w of (self, w') \<Rightarrow> (Some self, w'))"

text \<open>\<^verbatim>\<open>a or b\<close> and \<^verbatim>\<open>not a\<close> on the optional strings that \<^verbatim>\<open>.get\<close> returns.\<close>

definition str_truthy :: "string option \<Rightarrow> bool" where
  "str_truthy a = (case a of None \<Rightarrow> False | Some x \<Rightarrow> x \<noteq> [])"

definition str_or :: "string option \<Rightarrow> string option \<Rightarrow> string option" where
  "str_or a b = (if str_truthy a then a else b)"

section \<open>The decorators\<close>

definition unauthorized :: response where
  "unauthorized =
     \<lparr>body = JObj [(''error'', JStr ''Invalid or missing API key''),
                   (''status'', JStr ''unauthorized'')],
      status_code = 401\<rparr>"

definition require_api_key ::
  "config \<Rightarrow> (request \<Rightarrow> st \<Rightarrow> response \<times> st) \<Rightarrow> request \<Rightarrow> st \<Rightarrow> response \<times> st" where
  "require_api_key cfg f r s =
     (if str_truthy (API_KEY cfg) then
        (let provided_key = str_or (headers r ''X-API-Key'') (args r ''api_key'') in
         if \<not> str_truthy provided_key \<or> provided_key \<noteq> API_KEY cfg
         then (unauthorized, s)
         else f r s)
      else f r s)"

definition handle_errors ::
  "(request \<Rightarrow> st \<Rightarrow> (pyexn + response) \<times> st) \<Rightarrow> request \<Rightarrow> st \<Rightarrow> response \<times> st" where
  "handle_errors f r s =
     (case f r s of
        (Inr resp, s') \<Rightarrow> (resp, s')
      | (Inl e, s') \<Rightarrow>
          if exn_class_of e = ConnectionError then
            (\<lparr>body = JObj [(''error'', JStr ''Unable to connect to the AI service''),
                           (''status'', JStr ''connection_error''),
                           (''message'', JStr (str_exn e))],
              status_code = 503\<rparr>, s')
          else
            (\<lparr>body = JObj [(''error'', JStr ''Internal server error''),
                           (''status'', JStr ''error''),
                           (''message'', JStr (str_exn e))],
              status_code = 500\<rparr>, s'))"

section \<open>The routes\<close>

text \<open>
  \<^verbatim>\<open>/health\<close>. Nothing inside the outer \<^verbatim>\<open>try\<close> raises past the inner one, so the
  branch with status \<^verbatim>\<open>error\<close> and code 500 is never taken.
\<close>

definition health_check :: "config \<Rightarrow> request \<Rightarrow> st \<Rightarrow> response \<times> st" where
  "health_check cfg r s =
     (case s of (g, w) \<Rightarrow>
        (case (case g of
                 None \<Rightarrow> (''unhealthy'', 503, ''Gradio client not initialized'', w)
               | Some gc \<Rightarrow>
                   (case client gc of
                      None \<Rightarrow> (''unhealthy'', 503, ''Gradio client not initialized'', w)
                    | Some h \<Rightarrow>
                        (case external (Connect (api_url gc)) w of
                           (Returns test_client, w1) \<Rightarrow>
                             (''healthy'', 200, ''API connection successful'', w1)
                         | (Raises e, w1) \<Rightarrow>
                             (''unhealthy'', 503, ''API connection failed: '' @ str_exn e, w1)))) of
           (status, code, message, w') \<Rightarrow>
             (\<lparr>body = JObj [(''status'', JStr status),
                            (''message'', JStr message),
                            (''api_url'', JStr (API_URL cfg)),
                            (''last_connected'',
                               (case g of
                                  None \<Rightarrow> JNull
                                | Some gc \<Rightarrow>
                                    (case last_connected gc of None \<Rightarrow> JNull | Some t \<Rightarrow> JStr t))),
                            (''timestamp'', JStr (now w'))],
               status_code = code\<rparr>, (g, w'))))"

definition not_initialized :: response where
  "not_initialized =
     \<lparr>body = JObj [(''error'', JStr ''Gradio client not initialized''),
                   (''status'', JStr ''service_unavailable'')],
      status_code = 503\<rparr>"

definition bad_request :: "string \<Rightarrow> response" where
  "bad_request msg =
     \<lparr>body = JObj [(''error'', JStr msg), (''status'', JStr ''bad_request'')],
      status_code = 400\<rparr>"

definition no_get_attribute :: "json \<Rightarrow> pyexn" where
  "no_get_attribute data = PyExn AttributeError (type_name data @ '' object has no attribute get'')"

text \<open>\<^verbatim>\<open>if not (lo <= x <= hi): x = DEFAULT\<close>, the validation of \<^verbatim>\<open>/generate\<close>.\<close>

definition range_or_default :: "string \<Rightarrow> real \<Rightarrow> json \<Rightarrow> real \<Rightarrow> pyfloat \<Rightarrow> pyexn + json" where
  "range_or_default lo_ty lo x hi dflt =
     (case chained_le lo_ty lo x hi of
        Inl e \<Rightarrow> Inl e
      | Inr ok \<Rightarrow> Inr (if \<not> ok then JFloat dflt else x))"

text \<open>
  \<^verbatim>\<open>/generate\<close>. A body that is truthy and not an object raises AttributeError at the
  first \<^verbatim>\<open>data.get\<close>; on an object no \<^verbatim>\<open>data.get\<close> raises.
\<close>

definition generate_response :: "config \<Rightarrow> request \<Rightarrow> st \<Rightarrow> (pyexn + response) \<times> st" where
  "generate_response cfg r s =
     (case s of (g, w) \<Rightarrow>
      (case g of
         None \<Rightarrow> (Inr not_initialized, s)
       | Some gc \<Rightarrow>
      (case get_json r of
         Inl e \<Rightarrow> (Inl e, s)
       | Inr data \<Rightarrow>
      if \<not> truthy data then (Inr (bad_request ''No JSON data provided''), s)
      else
      (case data of
         JObj kvs \<Rightarrow>
           (let user_input = py_or (dict_get kvs ''user_input'' JNull) (dict_get kvs ''question'' JNull)
            in
            if \<not> truthy user_input
            then (Inr (bad_request ''user_input or question is required''), s)
            else
            (let endpoint = dict_get kvs ''endpoint'' (JStr ''/generate_response'') in
             (case range_or_default ''int'' 1
                     (dict_get kvs ''max_length'' (JFloat (DEFAULT_MAX_LENGTH cfg))) 2048
                     (DEFAULT_MAX_LENGTH cfg) of
                Inl e \<Rightarrow> (Inl e, s)
              | Inr max_length \<Rightarrow>
             (case range_or_default ''float'' 0
                     (dict_get kvs ''temperature'' (JFloat (DEFAULT_TEMPERATURE cfg))) 2
                     (DEFAULT_TEMPERATURE cfg) of
                Inl e \<Rightarrow> (Inl e, s)
              | Inr temperature \<Rightarrow>
             (case range_or_default ''float'' 0
                     (dict_get kvs ''top_p'' (JFloat (DEFAULT_TOP_P cfg))) 1
                     (DEFAULT_TOP_P cfg) of
                Inl e \<Rightarrow> (Inl e, s)
              | Inr top_p \<Rightarrow>
             (case GradioAPIClient_generate_response gc user_input max_length temperature top_p
                     endpoint w of
                (Inl e, gc', w') \<Rightarrow> (Inl e, (Some gc', w'))
              | (Inr resp, gc', w') \<Rightarrow>
                  (Inr \<lparr>body = JObj [(''status'', JStr ''success''),
                                     (''user_input'', user_input),
                                     (''response'', resp),
                                     (''parameters'',
                                        JObj [(''max_length'', max_length),
                                              (''temperature'', temperature),
                                              (''top_p'', top_p),
                                              (''endpoint'', endpoint)]),
                                     (''timestamp'', JStr (now w'))],
                        status_code = 200\<rparr>, (Some gc', w'))))))))
       | _ \<Rightarrow> (Inl (no_get_attribute data), s)))))"

text \<open>\<^verbatim>\<open>float(request.args.get(name, DEFAULT))\<close> of \<^verbatim>\<open>/ask\<close>.\<close>

definition float_arg :: "world \<Rightarrow> request \<Rightarrow> string \<Rightarrow> pyfloat \<Rightarrow> pyexn + pyfloat" where
  "float_arg w r name dflt =
     (case args r name of
        None \<Rightarrow> Inr dflt
      | Some x \<Rightarrow>
          (case float_of_str w x of
             None \<Rightarrow> Inl (PyExn ValueError (''could not convert string to float: '' @ x))
           | Some f \<Rightarrow> Inr f))"

definition ask_question :: "config \<Rightarrow> request \<Rightarrow> st \<Rightarrow> (pyexn + response) \<times> st" where
  "ask_question cfg r s =
     (case s of (g, w) \<Rightarrow>
      (case g of
         None \<Rightarrow> (Inr not_initialized, s)
       | Some gc \<Rightarrow>
      (let question = str_or (args r ''question'') (args r ''q'') in
       (case question of
          None \<Rightarrow> (Inr (bad_request ''question parameter is required''), s)
        | Some q \<Rightarrow>
       if q = [] then (Inr (bad_request ''question parameter is required''), s)
       else
       (case float_arg w r ''max_length'' (DEFAULT_MAX_LENGTH cfg) of
          Inl e \<Rightarrow> (Inl e, s)
        | Inr max_length \<Rightarrow>
       (case float_arg w r ''temperature'' (DEFAULT_TEMPERATURE cfg) of
          Inl e \<Rightarrow> (Inl e, s)
        | Inr temperature \<Rightarrow>
       (case float_arg w r ''top_p'' (DEFAULT_TOP_P cfg) of
          Inl e \<Rightarrow> (Inl e, s)
        | Inr top_p \<Rightarrow>
       (case GradioAPIClient_generate_response gc (JStr q) (JFloat max_length)
               (JFloat temperature) (JFloat top_p) (JStr ''/generate_response'') w of
          (Inl e, gc', w') \<Rightarrow> (Inl e, (Some gc', w'))
        | (Inr resp, gc', w') \<Rightarrow>
            (Inr \<lparr>body = JObj [(''status'', JStr ''success''),
                               (''question'', JStr q),
                               (''response'', resp),
                               (''timestamp'', JStr (now w'))],
                  status_code = 200\<rparr>, (Some gc', w'))))))))))"

definition compare_endpoints :: "config \<Rightarrow> request \<Rightarrow> st \<Rightarrow> (pyexn + response) \<times> st" where
  "compare_endpoints cfg r s =
     (case s of (g, w) \<Rightarrow>
      (case g of
         None \<Rightarrow> (Inr not_initialized, s)
       | Some gc \<Rightarrow>
      (case get_json r of
         Inl e \<Rightarrow> (Inl e, s)
       | Inr data \<Rightarrow>
      if \<not> truthy data then (Inr (bad_request ''No JSON data provided''), s)
      else
      (case data of
         JObj kvs \<Rightarrow>
           (let user_input = py_or (dict_get kvs ''user_input'' JNull) (dict_get kvs ''question'' JNull)
            in
            if \<not> truthy user_input
            then (Inr (bad_request ''user_input or question is required''), s)
            else
            (let max_length = dict_get kvs ''max_length'' (JFloat (DEFAULT_MAX_LENGTH cfg));
                 temperature = dict_get kvs ''temperature'' (JFloat (DEFAULT_TEMPERATURE cfg));
                 top_p = dict_get kvs ''top_p'' (JFloat (DEFAULT_TOP_P cfg))
             in
             (case GradioAPIClient_generate_response gc user_input max_length temperature top_p
                     (JStr ''/generate_response'') w of
                (Inl e, gc1, w1) \<Rightarrow> (Inl e, (Some gc1, w1))
              | (Inr response1, gc1, w1) \<Rightarrow>
             (case sleep (JFloat (Finite (1 / 2))) w1 of
                (Inl e, w2) \<Rightarrow> (Inl e, (Some gc1, w2))
              | (Inr u, w2) \<Rightarrow>
             (case GradioAPIClient_generate_response gc1 user_input max_length temperature top_p
                     (JStr ''/generate_response_1'') w2 of
                (Inl e, gc3, w3) \<Rightarrow> (Inl e, (Some gc3, w3))
              | (Inr response2, gc3, w3) \<Rightarrow>
                  (Inr \<lparr>body = JObj [(''status'', JStr ''success''),
                                     (''user_input'', user_input),
                                     (''responses'',
                                        JObj [(''endpoint_1'', response1),
                                              (''endpoint_2'', response2)]),
                                     (''parameters'',
                                        JObj [(''max_length'', max_length),
                                              (''temperature'', temperature),
                                              (''top_p'', top_p)]),
                                     (''timestamp'', JStr (now w3))],
                        status_code = 200\<rparr>, (Some gc3, w3)))))))
       | _ \<Rightarrow> (Inl (no_get_attribute data), s)))))"

text \<open>
  \<^verbatim>\<open>question, response = result\<close> in \<^verbatim>\<open>/sample\<close>: a two-element list, a two-character
  string or a two-key object unpacks; another length raises ValueError, a value that is
  not iterable raises TypeError.
\<close>

fun unpack2 :: "json \<Rightarrow> pyexn + (json \<times> json)" where
  "unpack2 (JArr [a, b]) = Inr (a, b)"
| "unpack2 (JStr [c, d]) = Inr (JStr [c], JStr [d])"
| "unpack2 (JObj [(k1, v1), (k2, v2)]) = Inr (JStr k1, JStr k2)"
| "unpack2 (JArr xs) = Inl (PyExn ValueError ''wrong number of values to unpack'')"
| "unpack2 (JStr cs) = Inl (PyExn ValueError ''wrong number of values to unpack'')"
| "unpack2 (JObj kvs) = Inl (PyExn ValueError ''wrong number of values to unpack'')"
| "unpack2 v = Inl (PyExn TypeError (''cannot unpack non-iterable '' @ type_name v @ '' object''))"

definition get_sample_data :: "config \<Rightarrow> request \<Rightarrow> st \<Rightarrow> (pyexn + response) \<times> st" where
  "get_sample_data cfg r s =
     (case s of (g, w) \<Rightarrow>
      (case g of
         None \<Rightarrow> (Inr not_initialized, s)
       | Some gc \<Rightarrow>
      (case GradioAPIClient_get_lambda_data gc w of
         (Inl e, gc', w') \<Rightarrow> (Inl e, (Some gc', w'))
       | (Inr result, gc', w') \<Rightarrow>
           (case unpack2 result of
              Inl e \<Rightarrow> (Inl e, (Some gc', w'))
            | Inr (question, resp) \<Rightarrow>
                (Inr \<lparr>body = JObj [(''status'', JStr ''success''),
                                   (''sample_question'', question),
                                   (''sample_response'', resp),
                                   (''timestamp'', JStr (now w'))],
                      status_code = 200\<rparr>, (Some gc', w'))))))"

text \<open>
  The loop of \<^verbatim>\<open>/batch\<close> over \<^verbatim>\<open>enumerate(questions)\<close>: \<open>n\<close> is \<^verbatim>\<open>len(questions)\<close>,
  \<open>i\<close> the index of the head of the remaining questions. The \<^verbatim>\<open>try\<close> holds the backend
  call, the \<^verbatim>\<open>append\<close> of the success item and the \<^verbatim>\<open>time.sleep\<close>; an exception raised
  anywhere in it appends an error item for the same index.
\<close>

definition success_item :: "nat \<Rightarrow> json \<Rightarrow> json \<Rightarrow> json" where
  "success_item i question resp =
     JObj [(''index'', JInt (int i)), (''question'', question), (''response'', resp),
           (''status'', JStr ''success'')]"

definition error_item :: "nat \<Rightarrow> json \<Rightarrow> pyexn \<Rightarrow> json" where
  "error_item i question e =
     JObj [(''index'', JInt (int i)), (''question'', question), (''response'', JNull),
           (''error'', JStr (str_exn e)), (''status'', JStr ''error'')]"

fun batch_loop ::
  "json \<Rightarrow> json \<Rightarrow> json \<Rightarrow> json \<Rightarrow> nat \<Rightarrow> nat \<Rightarrow> json list \<Rightarrow> json list
     \<Rightarrow> gradio_api_client \<Rightarrow> world \<Rightarrow> json list \<times> gradio_api_client \<times> world" where
  "batch_loop max_length temperature top_p delay n i [] results gc w = (results, gc, w)"
| "batch_loop max_length temperature top_p delay n i (question # rest) results gc w =
     (case GradioAPIClient_generate_response gc question max_length temperature top_p
             (JStr ''/generate_response'') w of
        (Inl e, gc1, w1) \<Rightarrow>
          batch_loop max_length temperature top_p delay n (Suc i) rest
            (results @ [error_item i question e]) gc1 w1
      | (Inr resp, gc1, w1) \<Rightarrow>
          if int i < int n - 1 then
            (case sleep delay w1 of
               (Inl e, w2) \<Rightarrow>
                 batch_loop max_length temperature top_p delay n (Suc i) rest
                   (results @ [success_item i question resp, error_item i question e]) gc1 w2
             | (Inr u, w2) \<Rightarrow>
                 batch_loop max_length temperature top_p delay n (Suc i) rest
                   (results @ [success_item i question resp]) gc1 w2)
          else
            batch_loop max_length temperature top_p delay n (Suc i) rest
              (results @ [success_item i question resp]) gc1 w1)"

definition batch_generate :: "config \<Rightarrow> request \<Rightarrow> st \<Rightarrow> (pyexn + response) \<times> st" where
  "batch_generate cfg r s =
     (case s of (g, w) \<Rightarrow>
      (case g of
         None \<Rightarrow> (Inr not_initialized, s)
       | Some gc \<Rightarrow>
      (case get_json r of
         Inl e \<Rightarrow> (Inl e, s)
       | Inr data \<Rightarrow>
      if \<not> truthy data then (Inr (bad_request ''No JSON data provided''), s)
      else
      (case data of
         JObj kvs \<Rightarrow>
           (case dict_get kvs ''questions'' (JArr []) of
              JArr questions \<Rightarrow>
                if questions = [] then (Inr (bad_request ''questions array is required''), s)
                else if length questions > 10
                then (Inr (bad_request ''Maximum 10 questions allowed per batch''), s)
                else
                (let max_length = dict_get kvs ''max_length'' (JFloat (DEFAULT_MAX_LENGTH cfg));
                     temperature = dict_get kvs ''temperature'' (JFloat (DEFAULT_TEMPERATURE cfg));
                     top_p = dict_get kvs ''top_p'' (JFloat (DEFAULT_TOP_P cfg));
                     delay = dict_get kvs ''delay'' (JFloat (Finite 1))
                 in
                 (case batch_loop max_length temperature top_p delay (length questions) 0
                         questions [] gc w of
                    (results, gc', w') \<Rightarrow>
                      (Inr \<lparr>body = JObj [(''status'', JStr ''completed''),
                                         (''total_questions'', JInt (int (length questions))),
                                         (''results'', JArr results),
                                         (''parameters'',
                                            JObj [(''max_length'', max_length),
                                                  (''temperature'', temperature),
                                                  (''top_p'', top_p),
                                                  (''delay'', delay)]),
                                         (''timestamp'', JStr (now w'))],
                            status_code = 200\<rparr>, (Some gc', w'))))
            | _ \<Rightarrow> (Inr (bad_request ''questions array is required''), s))
       | _ \<Rightarrow> (Inl (no_get_attribute data), s)))))"

text \<open>
  The route table, with the decorators in the order the source applies them. The page
  at \<^verbatim>\<open>/\<close> and the static documentation routes call nothing of the above and are left out.
\<close>

datatype route = Health | Generate | Ask | Compare | Sample | Batch

fun key_protected :: "route \<Rightarrow> bool" where
  "key_protected Health = False"
| "key_protected rt = True"

fun serve :: "config \<Rightarrow> route \<Rightarrow> request \<Rightarrow> st \<Rightarrow> response \<times> st" where
  "serve cfg Health = health_check cfg"
| "serve cfg Generate = require_api_key cfg (handle_errors (generate_response cfg))"
| "serve cfg Ask = require_api_key cfg (handle_errors (ask_question cfg))"
| "serve cfg Compare = require_api_key cfg (handle_errors (compare_endpoints cfg))"
| "serve cfg Sample = require_api_key cfg (handle_errors (get_sample_data cfg))"
| "serve cfg Batch = require_api_key cfg (handle_errors (batch_generate cfg))"

text \<open>Observations on a trace and on a response body, and a world that follows a script.\<close>

fun is_predict :: "event \<Rightarrow> bool" where
  "is_predict (Predict h kwargs) = True"
| "is_predict ev = False"

fun is_sleep :: "event \<Rightarrow> bool" where
  "is_sleep (Sleep d) = True"
| "is_sleep ev = False"


definition scripted_world :: "outcome list \<Rightarrow> world" where
  "scripted_world script =
     \<lparr>outcomes = (\<lambda>n. if n < length script then script ! n
                       else Raises (PyExn (OtherException ''TimeoutError'') ''timed out'')),
      clock = (\<lambda>n. ''2024-01-01T00:00:00''),
      float_of_str = (\<lambda>x. None),
      trace = []\<rparr>"

definition demo_config :: "string option \<Rightarrow> config" where
  "demo_config key =
     \<lparr>API_URL = ''https://backend.example/'',
      DEFAULT_MAX_LENGTH = Finite 512,
      DEFAULT_TEMPERATURE = Finite (7 / 10),
      DEFAULT_TOP_P = Finite (9 / 10),
      API_KEY = key\<rparr>"

definition demo_client :: "nat option \<Rightarrow> gradio_api_client" where
  "demo_client h = \<lparr>api_url = ''https://backend.example/'', client = h, last_connected = None\<rparr>"

definition json_request :: "json \<Rightarrow> request" where
  "json_request data = \<lparr>headers = Map.empty, args = Map.empty, get_json = Inr data\<rparr>"

text \<open>The undecorated view function of a route.\<close>

fun view :: "config \<Rightarrow> route \<Rightarrow> request \<Rightarrow> st \<Rightarrow> (pyexn + response) \<times> st" where
  "view cfg Health = (\<lambda>r s. case health_check cfg r s of (resp, s') \<Rightarrow> (Inr resp, s'))"
| "view cfg Generate = generate_response cfg"
| "view cfg Ask = ask_question cfg"
| "view cfg Compare = compare_endpoints cfg"
| "view cfg Sample = get_sample_data cfg"
| "view cfg Batch = batch_generate cfg"

text \<open>The events that a run appended to the trace of the world it started in.\<close>

definition new_events :: "world \<Rightarrow> world \<Rightarrow> event list" where
  "new_events w w' = drop (length (trace w)) (trace w')"

section \<open>The rules of the specification, in its words\<close>

text \<open>
  A number lies in the closed range from \<open>lo\<close> to \<open>hi\<close>; NaN and the infinities do not.
  A generation parameter outside its range is replaced by the configured default, one
  inside it is kept.
\<close>

definition in_closed_range :: "real \<Rightarrow> real \<Rightarrow> pyfloat \<Rightarrow> bool" where
  "in_closed_range lo hi v = (case v of Finite x \<Rightarrow> lo \<le> x \<and> x \<le> hi | _ \<Rightarrow> False)"

definition default_if_outside :: "real \<Rightarrow> real \<Rightarrow> pyfloat \<Rightarrow> json \<Rightarrow> json" where
  "default_if_outside lo hi dflt x =
     (case num_of x of
        Some v \<Rightarrow> if in_closed_range lo hi v then x else JFloat dflt
      | None \<Rightarrow> x)"

section \<open>Observations on a batch run\<close>

text \<open>
  A delay that \<^verbatim>\<open>time.sleep\<close> accepts; the items that the loop of \<^verbatim>\<open>/batch\<close> appends
  for the question at index \<open>i\<close>; the result list and the status code of an answer.
\<close>

definition sleep_ok :: "json \<Rightarrow> bool" where
  "sleep_ok d = (case num_of d of Some (Finite r) \<Rightarrow> 0 \<le> r \<and> r * 10 ^ 9 < 2 ^ 63 | _ \<Rightarrow> False)"

fun is_success_item :: "json \<Rightarrow> bool" where
  "is_success_item (JObj kvs) = (map_of kvs ''status'' = Some (JStr ''success''))"
| "is_success_item v = False"

definition item_for :: "nat \<Rightarrow> json \<Rightarrow> json \<Rightarrow> bool" where
  "item_for i question item =
     ((\<exists>resp. item = success_item i question resp) \<or> (\<exists>e. item = error_item i question e))"

definition batch_results :: "(pyexn + response) \<Rightarrow> json list" where
  "batch_results out =
     (case out of
        Inr resp \<Rightarrow>
          (case body resp of
             JObj kvs \<Rightarrow> (case map_of kvs ''results'' of Some (JArr xs) \<Rightarrow> xs | _ \<Rightarrow> [])
           | _ \<Rightarrow> [])
      | Inl e \<Rightarrow> [])"

definition response_code :: "(pyexn + response) \<Rightarrow> nat option" where
  "response_code out = (case out of Inr resp \<Rightarrow> Some (status_code resp) | Inl e \<Rightarrow> None)"

text \<open>
  The pacing of a batch run that appended the items \<open>new\<close> and made the calls \<open>evs\<close> for
  the questions \<open>qs\<close>, the first of them at index \<open>i\<close>: one item per question, a sleep
  for every successful item but the last, each of the configured delay, none at the end.
\<close>

definition paced :: "json \<Rightarrow> nat \<Rightarrow> json list \<Rightarrow> json list \<Rightarrow> event list \<Rightarrow> bool" where
  "paced d i qs new evs =
     (length new = length qs \<and>
      (\<forall>k < length qs. item_for (i + k) (qs ! k) (new ! k)) \<and>
      (\<forall>ev \<in> set evs. is_sleep ev \<longrightarrow> ev = Sleep d) \<and>
      length (filter is_sleep evs) = length (filter is_success_item (butlast new)) \<and>
      (evs = [] \<or> \<not> is_sleep (last evs)) \<and>
      (qs \<noteq> [] \<longrightarrow> evs \<noteq> []))"

text \<open>
  The key check in the words of the specification: no key is configured (none, or the
  empty string) or the provided key, the header or else the query argument, is the
  configured key. A field of an answer's body, and a batch of ten questions.
\<close>

definition authorized :: "config \<Rightarrow> request \<Rightarrow> bool" where
  "authorized cfg r =
     (case API_KEY cfg of
        None \<Rightarrow> True
      | Some k \<Rightarrow> k = [] \<or> str_or (headers r ''X-API-Key'') (args r ''api_key'') = Some k)"

definition body_field :: "string \<Rightarrow> response \<Rightarrow> json option" where
  "body_field k resp = (case body resp of JObj kvs \<Rightarrow> map_of kvs k | _ \<Rightarrow> None)"

definition ten_questions :: "json list" where
  "ten_questions = map (\<lambda>c. JStr [c]) ''abcdefghij''"

text \<open>
  What the loop of \<^verbatim>\<open>/batch\<close> does for one question, read off the result list and the
  trace. The calls made for a question are at least one, each of them the creation of a
  client or a \<^verbatim>\<open>predict\<close> with that question and the shared parameters on the operation
  \<^verbatim>\<open>/generate_response\<close>. The question is answered with \<open>resp\<close> when the last of its
  calls is a \<^verbatim>\<open>predict\<close> that returned \<open>resp\<close>; it failed when the last of its calls
  raised. The world decides the outcome of a call by its position in the trace, \<open>pos\<close>
  being the position of the first call for the question.
\<close>

definition item_calls :: "json \<Rightarrow> json \<Rightarrow> json \<Rightarrow> json \<Rightarrow> event list \<Rightarrow> bool" where
  "item_calls question max_length temperature top_p calls =
     (calls \<noteq> [] \<and>
      list_all (\<lambda>ev. case ev of
                  Connect url \<Rightarrow> True
                | Predict h kwargs \<Rightarrow>
                    kwargs = predict_kwargs question max_length temperature top_p
                               (JStr ''/generate_response'')
                | Sleep d \<Rightarrow> False) calls)"

definition answered :: "(nat \<Rightarrow> outcome) \<Rightarrow> nat \<Rightarrow> event list \<Rightarrow> json \<Rightarrow> bool" where
  "answered oc pos calls resp =
     (is_predict (last calls) \<and> oc (pos + length calls - 1) = Returns resp)"

definition failed :: "(nat \<Rightarrow> outcome) \<Rightarrow> nat \<Rightarrow> event list \<Rightarrow> bool" where
  "failed oc pos calls = (case oc (pos + length calls - 1) of Raises e \<Rightarrow> True | Returns v \<Rightarrow> False)"

text \<open>
  The items and the calls of the question at index \<open>i\<close>: an error item after calls that
  failed; or a success item with the answer of the backend, followed, when the question
  is not the last one, by a sleep of the configured delay, or, when \<^verbatim>\<open>time.sleep\<close>
  refuses the delay, by an error item for the same index and no sleep.
\<close>

definition item_step ::
  "json \<Rightarrow> json \<Rightarrow> json \<Rightarrow> json \<Rightarrow> (nat \<Rightarrow> outcome) \<Rightarrow> nat \<Rightarrow> nat \<Rightarrow> json \<Rightarrow> bool
     \<Rightarrow> json list \<Rightarrow> event list \<Rightarrow> bool" where
  "item_step delay max_length temperature top_p oc pos i question is_last items seg =
     (\<exists>calls. item_calls question max_length temperature top_p calls \<and>
        ((\<exists>e. failed oc pos calls \<and> items = [error_item i question e] \<and> seg = calls) \<or>
         (\<exists>resp. answered oc pos calls resp \<and>
            (if is_last then items = [success_item i question resp] \<and> seg = calls
             else if sleep_ok delay
             then items = [success_item i question resp] \<and> seg = calls @ [Sleep delay]
             else (\<exists>e. items = [success_item i question resp, error_item i question e]) \<and>
                  seg = calls))))"

text \<open>
  A batch run over the questions \<open>qs\<close>, the first of them at index \<open>i\<close> and its first
  call at position \<open>pos\<close> of the trace: one group of items and one segment of calls for
  every question, in the order of the questions.
\<close>

fun batch_layout ::
  "json \<Rightarrow> json \<Rightarrow> json \<Rightarrow> json \<Rightarrow> (nat \<Rightarrow> outcome) \<Rightarrow> nat \<Rightarrow> nat \<Rightarrow> json list
     \<Rightarrow> json list list \<Rightarrow> event list list \<Rightarrow> bool" where
  "batch_layout delay max_length temperature top_p oc pos i [] [] [] = True"
| "batch_layout delay max_length temperature top_p oc pos i (question # rest) (items # groups)
     (seg # segs) =
     (item_step delay max_length temperature top_p oc pos i question (rest = []) items seg \<and>
      batch_layout delay max_length temperature top_p oc (pos + length seg) (Suc i) rest groups segs)"
| "batch_layout delay max_length temperature top_p oc pos i qs groups segs = False"

text \<open>A backend that answers the call at position \<open>n\<close> of the trace with the number \<open>n\<close>.\<close>

definition counting_world :: world where
  "counting_world =
     \<lparr>outcomes = (\<lambda>n. Returns (JInt (int n))),
      clock = (\<lambda>n. ''2024-01-01T00:00:00''),
      float_of_str = (\<lambda>x. None),
      trace = []\<rparr>"




section \<open>The session manager: connect, one retry\<close>

lemma gen_connected_ok:
  assumes "sliceable user_input" "client self = Some h"
    "outcomes w (length (trace w)) = Returns v"
  shows "GradioAPIClient_generate_response self user_input ml t p ep w =
     (Inr v, self, w\<lparr>trace := trace w @ [Predict h (predict_kwargs user_input ml t p ep)]\<rparr>)"
  using assms
  by (simp add: GradioAPIClient_generate_response_def GradioAPIClient_ensure_connection_def
      client_predict_def external_def)

lemma gen_connected_reconnect_fails:
  assumes "sliceable user_input" "client self = Some h"
    "outcomes w (length (trace w)) = Raises e"
    "outcomes w (length (trace w) + 1) = Raises e'"
  shows "GradioAPIClient_generate_response self user_input ml t p ep w =
     (Inl e, self\<lparr>client := None\<rparr>,
      w\<lparr>trace := trace w @ [Predict h (predict_kwargs user_input ml t p ep), Connect (api_url self)]\<rparr>)"
  using assms
  by (simp add: GradioAPIClient_generate_response_def GradioAPIClient_ensure_connection_def
      GradioAPIClient_connect_def client_predict_def external_def)

lemma gen_connected_retry:
  assumes "sliceable user_input" "client self = Some h"
    "outcomes w (length (trace w)) = Raises e"
    "outcomes w (length (trace w) + 1) = Returns c"
  shows "GradioAPIClient_generate_response self user_input ml t p ep w =
     ((case outcomes w (length (trace w) + 2) of Returns v \<Rightarrow> Inr v | Raises e2 \<Rightarrow> Inl e2),
      self\<lparr>client := Some (length (trace w) + 1),
           last_connected := Some (clock w (length (trace w) + 2))\<rparr>,
      w\<lparr>trace := trace w @ [Predict h (predict_kwargs user_input ml t p ep), Connect (api_url self),
              Predict (length (trace w) + 1) (predict_kwargs user_input ml t p ep)]\<rparr>)"
  using assms
  by (simp add: GradioAPIClient_generate_response_def GradioAPIClient_ensure_connection_def
      GradioAPIClient_connect_def client_predict_def external_def now_def split: outcome.splits)

lemma gen_disconnected_fails:
  assumes "client self = None" "outcomes w (length (trace w)) = Raises e"
  shows "GradioAPIClient_generate_response self user_input ml t p ep w =
     (Inl (PyExn ConnectionError ''Unable to connect to Gradio API''), self\<lparr>client := None\<rparr>,
      w\<lparr>trace := trace w @ [Connect (api_url self)]\<rparr>)"
  using assms
  by (simp add: GradioAPIClient_generate_response_def GradioAPIClient_ensure_connection_def
      GradioAPIClient_connect_def client_predict_def external_def now_def)

lemma gen_disconnected_connects:
  assumes "client self = None" "outcomes w (length (trace w)) = Returns c"
  shows "GradioAPIClient_generate_response self user_input ml t p ep w =
     GradioAPIClient_generate_response
       (self\<lparr>client := Some (length (trace w)), last_connected := Some (clock w (length (trace w) + 1))\<rparr>)
       user_input ml t p ep (w\<lparr>trace := trace w @ [Connect (api_url self)]\<rparr>)"
  using assms
  by (simp add: GradioAPIClient_generate_response_def GradioAPIClient_ensure_connection_def
      GradioAPIClient_connect_def client_predict_def external_def now_def)

text \<open>
  Claim C1. A generation call on a string first makes sure there is a connection: with
  no handle it connects, and when that fails it raises ConnectionError with nothing but
  the connection attempt in the trace, while a successful connect leads to the call on
  the connected session. On a connected session a backend call that returns is the
  result; one that raises is followed by exactly one connect, and then either the
  original exception is raised (the connect failed) or one more backend call is made and
  its outcome, value or exception, is the outcome of the call.
\<close>

theorem invoke_connect_then_single_retry:
  assumes "sliceable user_input"
  shows
   "(client self = None \<longrightarrow>
       (\<forall>e. outcomes w (length (trace w)) = Raises e \<longrightarrow>
          GradioAPIClient_generate_response self user_input ml t p ep w =
            (Inl (PyExn ConnectionError ''Unable to connect to Gradio API''),
             self\<lparr>client := None\<rparr>,
             w\<lparr>trace := trace w @ [Connect (api_url self)]\<rparr>)) \<and>
       (\<forall>c. outcomes w (length (trace w)) = Returns c \<longrightarrow>
          GradioAPIClient_generate_response self user_input ml t p ep w =
            GradioAPIClient_generate_response
              (self\<lparr>client := Some (length (trace w)),
                    last_connected := Some (clock w (length (trace w) + 1))\<rparr>)
              user_input ml t p ep (w\<lparr>trace := trace w @ [Connect (api_url self)]\<rparr>))) \<and>
    (\<forall>h. client self = Some h \<longrightarrow>
       (\<forall>v. outcomes w (length (trace w)) = Returns v \<longrightarrow>
          GradioAPIClient_generate_response self user_input ml t p ep w =
            (Inr v, self,
             w\<lparr>trace := trace w @ [Predict h (predict_kwargs user_input ml t p ep)]\<rparr>)) \<and>
       (\<forall>e e'. outcomes w (length (trace w)) = Raises e \<and>
               outcomes w (length (trace w) + 1) = Raises e' \<longrightarrow>
          GradioAPIClient_generate_response self user_input ml t p ep w =
            (Inl e, self\<lparr>client := None\<rparr>,
             w\<lparr>trace := trace w @ [Predict h (predict_kwargs user_input ml t p ep),
                                    Connect (api_url self)]\<rparr>)) \<and>
       (\<forall>e c. outcomes w (length (trace w)) = Raises e \<and>
              outcomes w (length (trace w) + 1) = Returns c \<longrightarrow>
          GradioAPIClient_generate_response self user_input ml t p ep w =
            ((case outcomes w (length (trace w) + 2) of
                Returns v \<Rightarrow> Inr v | Raises e2 \<Rightarrow> Inl e2),
             self\<lparr>client := Some (length (trace w) + 1),
                  last_connected := Some (clock w (length (trace w) + 2))\<rparr>,
             w\<lparr>trace := trace w @ [Predict h (predict_kwargs user_input ml t p ep),
                                    Connect (api_url self),
                                    Predict (length (trace w) + 1)
                                      (predict_kwargs user_input ml t p ep)]\<rparr>)))"
proof (intro conjI impI allI)
  fix e assume "client self = None" "outcomes w (length (trace w)) = Raises e"
  then show "GradioAPIClient_generate_response self user_input ml t p ep w =
            (Inl (PyExn ConnectionError ''Unable to connect to Gradio API''),
             self\<lparr>client := None\<rparr>,
             w\<lparr>trace := trace w @ [Connect (api_url self)]\<rparr>)"
    by (rule gen_disconnected_fails)
next
  fix c assume "client self = None" "outcomes w (length (trace w)) = Returns c"
  then show "GradioAPIClient_generate_response self user_input ml t p ep w =
            GradioAPIClient_generate_response
              (self\<lparr>client := Some (length (trace w)),
                    last_connected := Some (clock w (length (trace w) + 1))\<rparr>)
              user_input ml t p ep (w\<lparr>trace := trace w @ [Connect (api_url self)]\<rparr>)"
    by (rule gen_disconnected_connects)
next
  fix h v assume "client self = Some h" "outcomes w (length (trace w)) = Returns v"
  with assms show "GradioAPIClient_generate_response self user_input ml t p ep w =
            (Inr v, self,
             w\<lparr>trace := trace w @ [Predict h (predict_kwargs user_input ml t p ep)]\<rparr>)"
    by (rule gen_connected_ok)
next
  fix h e e' assume "client self = Some h"
    "outcomes w (length (trace w)) = Raises e \<and> outcomes w (length (trace w) + 1) = Raises e'"
  with assms show "GradioAPIClient_generate_response self user_input ml t p ep w =
            (Inl e, self\<lparr>client := None\<rparr>,
             w\<lparr>trace := trace w @ [Predict h (predict_kwargs user_input ml t p ep),
                                    Connect (api_url self)]\<rparr>)"
    by (simp add: gen_connected_reconnect_fails)
next
  fix h e c assume "client self = Some h"
    "outcomes w (length (trace w)) = Raises e \<and> outcomes w (length (trace w) + 1) = Returns c"
  with assms show "GradioAPIClient_generate_response self user_input ml t p ep w =
            ((case outcomes w (length (trace w) + 2) of
                Returns v \<Rightarrow> Inr v | Raises e2 \<Rightarrow> Inl e2),
             self\<lparr>client := Some (length (trace w) + 1),
                  last_connected := Some (clock w (length (trace w) + 2))\<rparr>,
             w\<lparr>trace := trace w @ [Predict h (predict_kwargs user_input ml t p ep),
                                    Connect (api_url self),
                                    Predict (length (trace w) + 1)
                                      (predict_kwargs user_input ml t p ep)]\<rparr>)"
    by (simp add: gen_connected_retry)
qed


theorem invoke_connect_then_single_retry_witness:
  "sliceable (JStr ''q'') \<and>
   fst (GradioAPIClient_generate_response (demo_client None) (JStr ''q'') (JInt 512)
          (JFloat (Finite (7 / 10))) (JFloat (Finite (9 / 10))) (JStr ''/generate_response'')
          (scripted_world [Raises (PyExn (OtherException ''HTTPError'') ''502'')]))
     = Inl (PyExn ConnectionError ''Unable to connect to Gradio API'') \<and>
   trace (snd (snd (GradioAPIClient_generate_response (demo_client None) (JStr ''q'') (JInt 512)
          (JFloat (Finite (7 / 10))) (JFloat (Finite (9 / 10))) (JStr ''/generate_response'')
          (scripted_world [Raises (PyExn (OtherException ''HTTPError'') ''502'')]))))
     = [Connect ''https://backend.example/''] \<and>
   fst (GradioAPIClient_generate_response (demo_client (Some 0)) (JStr ''q'') (JInt 512)
          (JFloat (Finite (7 / 10))) (JFloat (Finite (9 / 10))) (JStr ''/generate_response'')
          (scripted_world [Raises (PyExn (OtherException ''HTTPError'') ''502''),
                           Raises (PyExn (OtherException ''HTTPError'') ''503'')]))
     = Inl (PyExn (OtherException ''HTTPError'') ''502'') \<and>
   GradioAPIClient_generate_response (demo_client (Some 0)) (JStr ''q'') (JInt 512)
          (JFloat (Finite (7 / 10))) (JFloat (Finite (9 / 10))) (JStr ''/generate_response'')
          (scripted_world [Raises (PyExn (OtherException ''HTTPError'') ''502''),
                           Returns JNull, Returns (JStr ''answer'')])
     = (Inr (JStr ''answer''),
        \<lparr>api_url = ''https://backend.example/'', client = Some 1,
          last_connected = Some ''2024-01-01T00:00:00''\<rparr>,
        (scripted_world [Raises (PyExn (OtherException ''HTTPError'') ''502''),
                           Returns JNull, Returns (JStr ''answer'')])
        \<lparr>trace := [Predict 0 (predict_kwargs (JStr ''q'') (JInt 512)
                       (JFloat (Finite (7 / 10))) (JFloat (Finite (9 / 10))) (JStr ''/generate_response'')),
                   Connect ''https://backend.example/'',
                   Predict 1 (predict_kwargs (JStr ''q'') (JInt 512)
                       (JFloat (Finite (7 / 10))) (JFloat (Finite (9 / 10))) (JStr ''/generate_response''))]\<rparr>)"
  using
    invoke_connect_then_single_retry [where user_input = "JStr ''q''" and self = "demo_client None"
      and w = "scripted_world [Raises (PyExn (OtherException ''HTTPError'') ''502'')]"
      and ml = "JInt 512" and t = "JFloat (Finite (7 / 10))" and p = "JFloat (Finite (9 / 10))"
      and ep = "JStr ''/generate_response''"]
    invoke_connect_then_single_retry [where user_input = "JStr ''q''" and self = "demo_client (Some 0)"
      and w = "scripted_world [Raises (PyExn (OtherException ''HTTPError'') ''502''),
                           Raises (PyExn (OtherException ''HTTPError'') ''503'')]"
      and ml = "JInt 512" and t = "JFloat (Finite (7 / 10))" and p = "JFloat (Finite (9 / 10))"
      and ep = "JStr ''/generate_response''"]
    invoke_connect_then_single_retry [where user_input = "JStr ''q''" and self = "demo_client (Some 0)"
      and w = "scripted_world [Raises (PyExn (OtherException ''HTTPError'') ''502''),
                           Returns JNull, Returns (JStr ''answer'')]"
      and ml = "JInt 512" and t = "JFloat (Finite (7 / 10))" and p = "JFloat (Finite (9 / 10))"
      and ep = "JStr ''/generate_response''"]
  by (simp add: scripted_world_def demo_client_def)

text \<open>
  Claim C9. Take a world where the first backend call of a generation call raises, the
  reconnect succeeds and the repeated backend call returns \<open>v\<close>, and a world where the
  first backend call returns \<open>v\<close> at once (on a session without a handle the connect that
  comes first succeeds in both). The caller gets the same value, \<open>v\<close>, in both.
\<close>

theorem retry_is_transparent:
  assumes "sliceable user_input"
    and "client self = None \<longrightarrow>
           (\<exists>c. outcomes w1 (length (trace w1)) = Returns c) \<and>
           (\<exists>c. outcomes w2 (length (trace w2)) = Returns c)"
    and "outcomes w1 (length (trace w1) + (if client self = None then 1 else 0)) = Returns v"
    and "outcomes w2 (length (trace w2) + (if client self = None then 1 else 0)) = Raises e"
    and "outcomes w2 (length (trace w2) + (if client self = None then 1 else 0) + 1) = Returns c'"
    and "outcomes w2 (length (trace w2) + (if client self = None then 1 else 0) + 2) = Returns v"
  shows "fst (GradioAPIClient_generate_response self user_input ml t p ep w2) = Inr v \<and>
         fst (GradioAPIClient_generate_response self user_input ml t p ep w2) =
         fst (GradioAPIClient_generate_response self user_input ml t p ep w1)"
proof (cases "client self")
  case (Some h)
  have "fst (GradioAPIClient_generate_response self user_input ml t p ep w1) = Inr v"
    using assms Some by (simp add: gen_connected_ok)
  moreover have "fst (GradioAPIClient_generate_response self user_input ml t p ep w2) = Inr v"
    using assms Some by (simp add: gen_connected_retry)
  ultimately show ?thesis by simp
next
  case None
  from assms(2) None obtain c1 c2 where
    c1: "outcomes w1 (length (trace w1)) = Returns c1" and
    c2: "outcomes w2 (length (trace w2)) = Returns c2" by auto
  have "fst (GradioAPIClient_generate_response self user_input ml t p ep w1) = Inr v"
    using assms(1,3) None c1
    by (simp add: gen_disconnected_connects [OF None c1] gen_connected_ok)
  moreover have "fst (GradioAPIClient_generate_response self user_input ml t p ep w2) = Inr v"
    using assms(1,4,5,6) None c2
    by (simp add: gen_disconnected_connects [OF None c2] gen_connected_retry)
  ultimately show ?thesis by simp
qed

theorem retry_is_transparent_witness:
  "fst (GradioAPIClient_generate_response (demo_client (Some 0)) (JStr ''q'') (JInt 512)
          (JFloat (Finite (7 / 10))) (JFloat (Finite (9 / 10))) (JStr ''/generate_response'')
          (scripted_world [Raises (PyExn (OtherException ''HTTPError'') ''502''),
                           Returns JNull, Returns (JStr ''answer'')]))
     = Inr (JStr ''answer'') \<and>
   fst (GradioAPIClient_generate_response (demo_client (Some 0)) (JStr ''q'') (JInt 512)
          (JFloat (Finite (7 / 10))) (JFloat (Finite (9 / 10))) (JStr ''/generate_response'')
          (scripted_world [Raises (PyExn (OtherException ''HTTPError'') ''502''),
                           Returns JNull, Returns (JStr ''answer'')]))
     =
   fst (GradioAPIClient_generate_response (demo_client (Some 0)) (JStr ''q'') (JInt 512)
          (JFloat (Finite (7 / 10))) (JFloat (Finite (9 / 10))) (JStr ''/generate_response'')
          (scripted_world [Returns (JStr ''answer'')]))"
  using retry_is_transparent [where user_input = "JStr ''q''" and self = "demo_client (Some 0)"
      and ?w1.0 = "scripted_world [Returns (JStr ''answer'')]"
      and ?w2.0 = "scripted_world [Raises (PyExn (OtherException ''HTTPError'') ''502''),
                           Returns JNull, Returns (JStr ''answer'')]"
      and v = "JStr ''answer''" and e = "PyExn (OtherException ''HTTPError'') ''502''"
      and c' = JNull
      and ml = "JInt 512" and t = "JFloat (Finite (7 / 10))" and p = "JFloat (Finite (9 / 10))"
      and ep = "JStr ''/generate_response''"]
  by (auto simp add: scripted_world_def demo_client_def)

section \<open>Parameter validation of /generate\<close>

lemma gen_events:
  assumes "GradioAPIClient_generate_response self u ml t p ep w = (res, self', w')"
  shows "\<exists>evs. trace w' = trace w @ evs \<and> evs \<noteq> [] \<and>
           (\<forall>ev \<in> set evs. (\<exists>url. ev = Connect url) \<or>
                            (\<exists>h. ev = Predict h (predict_kwargs u ml t p ep))) \<and>
           outcomes w' = outcomes w \<and> clock w' = clock w \<and> float_of_str w' = float_of_str w"
  using assms
  by (auto simp add: GradioAPIClient_generate_response_def GradioAPIClient_ensure_connection_def
      GradioAPIClient_connect_def client_predict_def external_def
      split: outcome.splits if_splits option.splits)

lemma range_or_default_number:
  assumes "num_of x \<noteq> None"
  shows "range_or_default ty lo x hi dflt = Inr (default_if_outside lo hi dflt x)"
proof -
  from assms obtain v where v: "num_of x = Some v" by auto
  have "(le_pyfloat (Finite lo) v \<and> le_pyfloat v (Finite hi)) = in_closed_range lo hi v"
    by (cases v) (simp_all add: in_closed_range_def)
  with v show ?thesis
    by (simp add: range_or_default_def chained_le_def default_if_outside_def)
qed


text \<open>
  Claim C3. In \<^verbatim>\<open>POST /generate\<close>, with a JSON object as body, a truthy input text and
  numbers for the three generation parameters (an absent one is its default), the handler
  does exactly what a generation call with the parameters of the specification's rule
  does: a \<^verbatim>\<open>max_length\<close> outside [1, 2048], a \<^verbatim>\<open>temperature\<close> outside [0, 2] and a
  \<^verbatim>\<open>top_p\<close> outside [0, 1] are replaced by their configured defaults, values inside are
  passed on as they are. The request is not rejected: the backend is called, every
  backend call of the request carries the substituted values, and so does the
  \<^verbatim>\<open>parameters\<close> field of the answer.
\<close>

theorem generate_out_of_range_gets_default:
  assumes body: "get_json r = Inr (JObj kvs)"
    and ui: "user_input = py_or (dict_get kvs ''user_input'' JNull) (dict_get kvs ''question'' JNull)"
      "truthy user_input"
    and ml: "max_length = dict_get kvs ''max_length'' (JFloat (DEFAULT_MAX_LENGTH cfg))"
      "num_of max_length \<noteq> None"
    and t: "temperature = dict_get kvs ''temperature'' (JFloat (DEFAULT_TEMPERATURE cfg))"
      "num_of temperature \<noteq> None"
    and p: "top_p = dict_get kvs ''top_p'' (JFloat (DEFAULT_TOP_P cfg))"
      "num_of top_p \<noteq> None"
    and ep: "endpoint = dict_get kvs ''endpoint'' (JStr ''/generate_response'')"
    and ml': "max_length' = default_if_outside 1 2048 (DEFAULT_MAX_LENGTH cfg) max_length"
    and t': "temperature' = default_if_outside 0 2 (DEFAULT_TEMPERATURE cfg) temperature"
    and p': "top_p' = default_if_outside 0 1 (DEFAULT_TOP_P cfg) top_p"
  shows "generate_response cfg r (Some gc, w) =
     (case GradioAPIClient_generate_response gc user_input max_length' temperature' top_p'
             endpoint w of
        (Inl e, gc', w') \<Rightarrow> (Inl e, (Some gc', w'))
      | (Inr resp, gc', w') \<Rightarrow>
          (Inr \<lparr>body = JObj [(''status'', JStr ''success''),
                             (''user_input'', user_input),
                             (''response'', resp),
                             (''parameters'',
                                JObj [(''max_length'', max_length'),
                                      (''temperature'', temperature'),
                                      (''top_p'', top_p'),
                                      (''endpoint'', endpoint)]),
                             (''timestamp'', JStr (now w'))],
                status_code = 200\<rparr>, (Some gc', w'))) \<and>
     (\<forall>h kwargs. Predict h kwargs
          \<in> set (new_events w (snd (snd (generate_response cfg r (Some gc, w))))) \<longrightarrow>
        kwargs = predict_kwargs user_input max_length' temperature' top_p' endpoint)"
proof -
  have ne: "kvs \<noteq> []"
    using ui by (auto simp add: py_or_def dict_get_def)
  have eq: "generate_response cfg r (Some gc, w) =
     (case GradioAPIClient_generate_response gc user_input max_length' temperature' top_p'
             endpoint w of
        (Inl e, gc', w') \<Rightarrow> (Inl e, (Some gc', w'))
      | (Inr resp, gc', w') \<Rightarrow>
          (Inr \<lparr>body = JObj [(''status'', JStr ''success''),
                             (''user_input'', user_input),
                             (''response'', resp),
                             (''parameters'',
                                JObj [(''max_length'', max_length'),
                                      (''temperature'', temperature'),
                                      (''top_p'', top_p'),
                                      (''endpoint'', endpoint)]),
                             (''timestamp'', JStr (now w'))],
                status_code = 200\<rparr>, (Some gc', w')))"
    unfolding generate_response_def
    using body ne ui(2) ml(2) t(2) p(2)
    unfolding ui(1) ml(1) t(1) p(1) ep ml' t' p'
    by (simp add: range_or_default_number Let_def)
  obtain res gc' w' where g:
    "GradioAPIClient_generate_response gc user_input max_length' temperature' top_p' endpoint w
       = (res, gc', w')"
    by (cases "GradioAPIClient_generate_response gc user_input max_length' temperature' top_p' endpoint w") auto
  from gen_events [OF g] obtain evs where evs: "trace w' = trace w @ evs"
    "\<forall>ev \<in> set evs. (\<exists>url. ev = Connect url) \<or>
        (\<exists>h. ev = Predict h (predict_kwargs user_input max_length' temperature' top_p' endpoint))"
    by blast
  have "snd (snd (generate_response cfg r (Some gc, w))) = w'"
    unfolding eq g by (cases res) simp_all
  then have "new_events w (snd (snd (generate_response cfg r (Some gc, w)))) = evs"
    using evs(1) by (simp add: new_events_def)
  with evs(2) eq show ?thesis by auto
qed

lemma demo_outcome0: "outcomes (scripted_world (x # xs)) (length (trace (scripted_world (x # xs)))) = x"
  by (simp add: scripted_world_def)

theorem generate_out_of_range_gets_default_witness:
  "fst (generate_response (demo_config None)
          (json_request (JObj [(''user_input'', JStr ''hi''), (''max_length'', JInt 3000),
                               (''temperature'', JFloat (Finite (5 / 2))),
                               (''top_p'', JFloat (Finite (1 / 2)))]))
          (Some (demo_client (Some 0)), scripted_world [Returns (JStr ''answer'')]))
     = Inr \<lparr>body = JObj [(''status'', JStr ''success''),
                         (''user_input'', JStr ''hi''),
                         (''response'', JStr ''answer''),
                         (''parameters'',
                            JObj [(''max_length'', JFloat (Finite 512)),
                                  (''temperature'', JFloat (Finite (7 / 10))),
                                  (''top_p'', JFloat (Finite (1 / 2))),
                                  (''endpoint'', JStr ''/generate_response'')]),
                         (''timestamp'', JStr ''2024-01-01T00:00:00'')],
            status_code = 200\<rparr>"
proof -
  let ?kvs = "[(''user_input'', JStr ''hi''), (''max_length'', JInt 3000),
               (''temperature'', JFloat (Finite (5 / 2))),
               (''top_p'', JFloat (Finite (1 / 2)))]"
  let ?cfg = "demo_config None"
  let ?w = "scripted_world [Returns (JStr ''answer'')]"
  have b: "get_json (json_request (JObj ?kvs)) = Inr (JObj ?kvs)"
    by (simp add: json_request_def)
  have u: "JStr ''hi'' = py_or (dict_get ?kvs ''user_input'' JNull) (dict_get ?kvs ''question'' JNull)"
    by (simp add: py_or_def dict_get_def)
  have m: "JInt 3000 = dict_get ?kvs ''max_length'' (JFloat (DEFAULT_MAX_LENGTH ?cfg))"
    by (simp add: dict_get_def)
  have t: "JFloat (Finite (5 / 2)) = dict_get ?kvs ''temperature'' (JFloat (DEFAULT_TEMPERATURE ?cfg))"
    by (simp add: dict_get_def)
  have p: "JFloat (Finite (1 / 2)) = dict_get ?kvs ''top_p'' (JFloat (DEFAULT_TOP_P ?cfg))"
    by (simp add: dict_get_def)
  have e: "JStr ''/generate_response'' = dict_get ?kvs ''endpoint'' (JStr ''/generate_response'')"
    by (simp add: dict_get_def)
  have m': "JFloat (Finite 512) = default_if_outside 1 2048 (DEFAULT_MAX_LENGTH ?cfg) (JInt 3000)"
    by (simp add: default_if_outside_def in_closed_range_def demo_config_def)
  have t': "JFloat (Finite (7 / 10)) = default_if_outside 0 2 (DEFAULT_TEMPERATURE ?cfg) (JFloat (Finite (5 / 2)))"
    by (simp add: default_if_outside_def in_closed_range_def demo_config_def)
  have p': "JFloat (Finite (1 / 2)) = default_if_outside 0 1 (DEFAULT_TOP_P ?cfg) (JFloat (Finite (1 / 2)))"
    by (simp add: default_if_outside_def in_closed_range_def demo_config_def)
  note th = generate_out_of_range_gets_default
    [where gc = "demo_client (Some 0)" and w = ?w, OF b u _ m _ t _ p _ e m' t' p']
  have c: "generate_response ?cfg (json_request (JObj ?kvs)) (Some (demo_client (Some 0)), ?w) =
     (case GradioAPIClient_generate_response (demo_client (Some 0)) (JStr ''hi'')
             (JFloat (Finite 512)) (JFloat (Finite (7 / 10))) (JFloat (Finite (1 / 2)))
             (JStr ''/generate_response'') ?w of
        (Inl e, gc', w') \<Rightarrow> (Inl e, (Some gc', w'))
      | (Inr resp, gc', w') \<Rightarrow>
          (Inr \<lparr>body = JObj [(''status'', JStr ''success''),
                             (''user_input'', JStr ''hi''),
                             (''response'', resp),
                             (''parameters'',
                                JObj [(''max_length'', JFloat (Finite 512)),
                                      (''temperature'', JFloat (Finite (7 / 10))),
                                      (''top_p'', JFloat (Finite (1 / 2))),
                                      (''endpoint'', JStr ''/generate_response'')]),
                             (''timestamp'', JStr (now w'))],
                status_code = 200\<rparr>, (Some gc', w')))"
    using th by simp
  have g: "GradioAPIClient_generate_response (demo_client (Some 0)) (JStr ''hi'')
             (JFloat (Finite 512)) (JFloat (Finite (7 / 10))) (JFloat (Finite (1 / 2)))
             (JStr ''/generate_response'') ?w =
           (Inr (JStr ''answer''), demo_client (Some 0),
            ?w\<lparr>trace := trace ?w @ [Predict 0 (predict_kwargs (JStr ''hi'')
             (JFloat (Finite 512)) (JFloat (Finite (7 / 10))) (JFloat (Finite (1 / 2)))
             (JStr ''/generate_response''))]\<rparr>)"
    by (rule gen_connected_ok) (simp_all add: demo_client_def demo_outcome0)
  show ?thesis
    unfolding c g by (simp add: now_def scripted_world_def)
qed

section \<open>Routes without validation\<close>

lemmas client_defs = GradioAPIClient_generate_response_def GradioAPIClient_ensure_connection_def
  GradioAPIClient_connect_def client_predict_def external_def now_def

lemmas demo_defs = demo_config_def json_request_def demo_client_def scripted_world_def

lemmas batch_eval = batch_generate_def dict_get_def sleep_def predict_kwargs_def new_events_def
  Let_def batch_results_def response_code_def client_defs demo_defs

lemma compare_passes_out_of_range_value:
  "new_events (scripted_world [Returns (JStr ''a''), Returns JNull, Returns (JStr ''b'')])
     (snd (snd (serve (demo_config None) Compare
        (json_request (JObj [(''user_input'', JStr ''hi''), (''max_length'', JInt 3000)]))
        (Some (demo_client (Some 0)),
         scripted_world [Returns (JStr ''a''), Returns JNull, Returns (JStr ''b'')]))))
   = [Predict 0 [(''user_input'', JStr ''hi''), (''max_length'', JInt 3000),
                 (''temperature'', JFloat (Finite (7 / 10))), (''top_p'', JFloat (Finite (9 / 10))),
                 (''api_name'', JStr ''/generate_response'')],
      Sleep (JFloat (Finite (1 / 2))),
      Predict 0 [(''user_input'', JStr ''hi''), (''max_length'', JInt 3000),
                 (''temperature'', JFloat (Finite (7 / 10))), (''top_p'', JFloat (Finite (9 / 10))),
                 (''api_name'', JStr ''/generate_response_1'')]]"
  by (simp add: require_api_key_def handle_errors_def compare_endpoints_def demo_config_def
      json_request_def demo_client_def scripted_world_def str_truthy_def py_or_def dict_get_def
      sleep_def predict_kwargs_def new_events_def Let_def client_defs)

lemma batch_passes_out_of_range_value:
  "new_events (scripted_world [Returns (JStr ''a'')])
     (snd (snd (serve (demo_config None) Batch
        (json_request (JObj [(''questions'', JArr [JStr ''hi'']), (''temperature'', JInt 9)]))
        (Some (demo_client (Some 0)), scripted_world [Returns (JStr ''a'')]))))
   = [Predict 0 [(''user_input'', JStr ''hi''), (''max_length'', JFloat (Finite 512)),
                 (''temperature'', JInt 9), (''top_p'', JFloat (Finite (9 / 10))),
                 (''api_name'', JStr ''/generate_response'')]]"
  by (simp add: require_api_key_def handle_errors_def batch_generate_def demo_config_def
      json_request_def demo_client_def scripted_world_def str_truthy_def py_or_def dict_get_def
      sleep_def predict_kwargs_def new_events_def Let_def success_item_def error_item_def client_defs)

lemma ask_passes_out_of_range_value:
  "new_events ((scripted_world [Returns (JStr ''a'')])
                 \<lparr>float_of_str := (\<lambda>x. if x = ''5'' then Some (Finite 5) else None)\<rparr>)
     (snd (snd (serve (demo_config None) Ask
        \<lparr>headers = Map.empty, args = [''q'' \<mapsto> ''hi'', ''top_p'' \<mapsto> ''5''], get_json = Inr JNull\<rparr>
        (Some (demo_client (Some 0)),
         (scripted_world [Returns (JStr ''a'')])
                 \<lparr>float_of_str := (\<lambda>x. if x = ''5'' then Some (Finite 5) else None)\<rparr>))))
   = [Predict 0 [(''user_input'', JStr ''hi''), (''max_length'', JFloat (Finite 512)),
                 (''temperature'', JFloat (Finite (7 / 10))), (''top_p'', JFloat (Finite 5)),
                 (''api_name'', JStr ''/generate_response'')]]"
  by (simp add: require_api_key_def handle_errors_def ask_question_def demo_config_def
      float_arg_def demo_client_def scripted_world_def str_truthy_def str_or_def
      predict_kwargs_def new_events_def Let_def client_defs)

text \<open>
  Claim C4. \<^verbatim>\<open>/generate\<close> replaces an out-of-range parameter by its default; the three
  other generation routes do not. With defaults 512, 0.7 and 0.9: \<^verbatim>\<open>POST /compare\<close> with
  \<^verbatim>\<open>max_length = 3000\<close> calls the backend twice with 3000, \<^verbatim>\<open>POST /batch\<close> with
  \<^verbatim>\<open>temperature = 9\<close> calls it with 9, and \<^verbatim>\<open>GET /ask\<close> with \<^verbatim>\<open>top_p=5\<close> calls it
  with 5.
\<close>

theorem unvalidated_routes_pass_out_of_range_values:
  "(new_events (scripted_world [Returns (JStr ''a''), Returns JNull, Returns (JStr ''b'')])
     (snd (snd (serve (demo_config None) Compare
        (json_request (JObj [(''user_input'', JStr ''hi''), (''max_length'', JInt 3000)]))
        (Some (demo_client (Some 0)),
         scripted_world [Returns (JStr ''a''), Returns JNull, Returns (JStr ''b'')]))))
   = [Predict 0 [(''user_input'', JStr ''hi''), (''max_length'', JInt 3000),
                 (''temperature'', JFloat (Finite (7 / 10))), (''top_p'', JFloat (Finite (9 / 10))),
                 (''api_name'', JStr ''/generate_response'')],
      Sleep (JFloat (Finite (1 / 2))),
      Predict 0 [(''user_input'', JStr ''hi''), (''max_length'', JInt 3000),
                 (''temperature'', JFloat (Finite (7 / 10))), (''top_p'', JFloat (Finite (9 / 10))),
                 (''api_name'', JStr ''/generate_response_1'')]]) \<and>
   (new_events (scripted_world [Returns (JStr ''a'')])
     (snd (snd (serve (demo_config None) Batch
        (json_request (JObj [(''questions'', JArr [JStr ''hi'']), (''temperature'', JInt 9)]))
        (Some (demo_client (Some 0)), scripted_world [Returns (JStr ''a'')]))))
   = [Predict 0 [(''user_input'', JStr ''hi''), (''max_length'', JFloat (Finite 512)),
                 (''temperature'', JInt 9), (''top_p'', JFloat (Finite (9 / 10))),
                 (''api_name'', JStr ''/generate_response'')]]) \<and>
   (new_events ((scripted_world [Returns (JStr ''a'')])
                 \<lparr>float_of_str := (\<lambda>x. if x = ''5'' then Some (Finite 5) else None)\<rparr>)
     (snd (snd (serve (demo_config None) Ask
        \<lparr>headers = Map.empty, args = [''q'' \<mapsto> ''hi'', ''top_p'' \<mapsto> ''5''], get_json = Inr JNull\<rparr>
        (Some (demo_client (Some 0)),
         (scripted_world [Returns (JStr ''a'')])
                 \<lparr>float_of_str := (\<lambda>x. if x = ''5'' then Some (Finite 5) else None)\<rparr>))))
   = [Predict 0 [(''user_input'', JStr ''hi''), (''max_length'', JFloat (Finite 512)),
                 (''temperature'', JFloat (Finite (7 / 10))), (''top_p'', JFloat (Finite 5)),
                 (''api_name'', JStr ''/generate_response'')]])"
  using compare_passes_out_of_range_value batch_passes_out_of_range_value
    ask_passes_out_of_range_value
  by (intro conjI)

section \<open>The batch loop\<close>

lemma sleep_ok_sleeps:
  "sleep_ok d \<Longrightarrow> sleep d w = (Inr (), w\<lparr>trace := trace w @ [Sleep d]\<rparr>)"
  by (auto simp add: sleep_ok_def sleep_def split: option.splits pyfloat.splits)

lemma sleep_events:
  "sleep d w = (r, w') \<Longrightarrow> trace w' = trace w \<or> trace w' = trace w @ [Sleep d]"
  by (auto simp add: sleep_def split: option.splits pyfloat.splits if_splits)

lemma batch_loop_trace:
  "batch_loop ml t p d n i qs results gc w = (results', gc', w') \<Longrightarrow>
   \<exists>evs. trace w' = trace w @ evs \<and> (qs \<noteq> [] \<longrightarrow> evs \<noteq> []) \<and>
         length results + length qs \<le> length results'"
proof (induction qs arbitrary: i results gc w)
  case Nil
  then show ?case by simp
next
  case (Cons q rest)
  obtain r gc1 w1 where g:
    "GradioAPIClient_generate_response gc q ml t p (JStr ''/generate_response'') w = (r, gc1, w1)"
    by (metis prod_cases3)
  from gen_events [OF g] obtain evs1 where e1: "trace w1 = trace w @ evs1" "evs1 \<noteq> []"
    by blast
  show ?case
  proof (cases r)
    case (Inl e)
    with Cons.prems g have
      "batch_loop ml t p d n (Suc i) rest (results @ [error_item i q e]) gc1 w1 = (results', gc', w')"
      by simp
    from Cons.IH [OF this] e1 show ?thesis by auto
  next
    case (Inr resp)
    show ?thesis
    proof (cases "int i < int n - 1")
      case False
      with Cons.prems g Inr have
        "batch_loop ml t p d n (Suc i) rest (results @ [success_item i q resp]) gc1 w1 = (results', gc', w')"
        by simp
      from Cons.IH [OF this] e1 show ?thesis by auto
    next
      case True
      obtain sr w2 where s: "sleep d w1 = (sr, w2)" by (metis surj_pair)
      from sleep_events [OF s] e1 obtain evs2 where e2: "trace w2 = trace w @ evs2" "evs2 \<noteq> []"
        by auto
      show ?thesis
      proof (cases sr)
        case (Inl e)
        with Cons.prems g Inr True s have
          "batch_loop ml t p d n (Suc i) rest
             (results @ [success_item i q resp, error_item i q e]) gc1 w2 = (results', gc', w')"
          by simp
        from Cons.IH [OF this] e2 show ?thesis by auto
      next
        case (Inr u)
        with Cons.prems g \<open>r = Inr resp\<close> True s have
          "batch_loop ml t p d n (Suc i) rest (results @ [success_item i q resp]) gc1 w2 = (results', gc', w')"
          by simp
        from Cons.IH [OF this] e2 show ?thesis by auto
      qed
    qed
  qed
qed

lemma is_success_item_simps [simp]:
  "is_success_item (success_item i q resp)" "\<not> is_success_item (error_item i q e)"
  by (simp_all add: success_item_def error_item_def)

lemma gen_events_no_sleep:
  assumes "GradioAPIClient_generate_response self u ml t p ep w = (res, self', w')"
  obtains evs where "trace w' = trace w @ evs" "evs \<noteq> []" "filter is_sleep evs = []"
    "\<not> is_sleep (last evs)"
proof -
  from gen_events [OF assms] obtain evs where e: "trace w' = trace w @ evs" "evs \<noteq> []"
    "\<forall>ev \<in> set evs. (\<exists>url. ev = Connect url) \<or>
                            (\<exists>h. ev = Predict h (predict_kwargs u ml t p ep))"
    by blast
  from e(3) have ns: "\<forall>ev \<in> set evs. \<not> is_sleep ev" by auto
  then have "filter is_sleep evs = []" by (simp add: filter_empty_conv)
  moreover from ns e(2) have "\<not> is_sleep (last evs)" by simp
  ultimately show ?thesis using e(1,2) that by blast
qed

lemma paced_Nil: "paced d i [] [] []"
  by (simp add: paced_def)

lemma paced_Cons_quiet:
  assumes "paced d (Suc i) rest new evs" "item_for i q x"
    "rest = [] \<or> \<not> is_success_item x"
    "evs1 \<noteq> []" "filter is_sleep evs1 = []" "\<not> is_sleep (last evs1)"
  shows "paced d i (q # rest) (x # new) (evs1 @ evs)"
proof -
  from assms(1) have len: "length new = length rest" by (simp add: paced_def)
  from assms(5) have ns: "\<forall>ev \<in> set evs1. \<not> is_sleep ev" by (simp add: filter_empty_conv)
  have items: "\<forall>k < length (q # rest). item_for (i + k) ((q # rest) ! k) ((x # new) ! k)"
  proof (intro allI impI)
    fix k assume k: "k < length (q # rest)"
    show "item_for (i + k) ((q # rest) ! k) ((x # new) ! k)"
    proof (cases k)
      case 0
      with assms(2) show ?thesis by simp
    next
      case (Suc k')
      with k assms(1) show ?thesis by (simp add: paced_def)
    qed
  qed
  have cnt: "length (filter is_sleep (evs1 @ evs)) = length (filter is_success_item (butlast (x # new)))"
  proof (cases "rest = []")
    case True
    with len assms(1,5) show ?thesis by (simp add: paced_def)
  next
    case False
    with len have "new \<noteq> []" by auto
    moreover from False assms(3) have "\<not> is_success_item x" by simp
    ultimately show ?thesis using assms(1,5) by (simp add: paced_def)
  qed
  have lst: "evs1 @ evs = [] \<or> \<not> is_sleep (last (evs1 @ evs))"
  proof (cases "evs = []")
    case True
    with assms(6) show ?thesis by simp
  next
    case False
    with assms(1) show ?thesis by (simp add: paced_def)
  qed
  show ?thesis
    unfolding paced_def using len items cnt lst ns assms(1,4)
    by (auto simp add: paced_def)
qed

lemma paced_Cons_sleep:
  assumes "paced d (Suc i) rest new evs" "item_for i q x" "rest \<noteq> []" "is_success_item x"
    "evs1 \<noteq> []" "filter is_sleep evs1 = []"
  shows "paced d i (q # rest) (x # new) (evs1 @ Sleep d # evs)"
proof -
  from assms(1) have len: "length new = length rest" by (simp add: paced_def)
  with assms(3) have nn: "new \<noteq> []" by auto
  from assms(1,3) have en: "evs \<noteq> []" "\<not> is_sleep (last evs)" by (auto simp add: paced_def)
  from assms(6) have ns: "\<forall>ev \<in> set evs1. \<not> is_sleep ev" by (simp add: filter_empty_conv)
  have items: "\<forall>k < length (q # rest). item_for (i + k) ((q # rest) ! k) ((x # new) ! k)"
  proof (intro allI impI)
    fix k assume k: "k < length (q # rest)"
    show "item_for (i + k) ((q # rest) ! k) ((x # new) ! k)"
    proof (cases k)
      case 0
      with assms(2) show ?thesis by simp
    next
      case (Suc k')
      with k assms(1) show ?thesis by (simp add: paced_def)
    qed
  qed
  have cnt: "length (filter is_sleep (evs1 @ Sleep d # evs)) =
             length (filter is_success_item (butlast (x # new)))"
    using nn assms(1,4,6) by (simp add: paced_def)
  show ?thesis
    unfolding paced_def using len items cnt en ns assms(1)
    by (auto simp add: paced_def)
qed

lemma batch_loop_paced:
  assumes "sleep_ok d"
  shows "n = i + length qs \<Longrightarrow>
         batch_loop ml t p d n i qs results gc w = (results', gc', w') \<Longrightarrow>
         \<exists>new evs. results' = results @ new \<and> trace w' = trace w @ evs \<and> paced d i qs new evs"
proof (induction qs arbitrary: i results gc w)
  case Nil
  then show ?case using paced_Nil by simp
next
  case (Cons q rest)
  have n': "n = Suc i + length rest" using Cons.prems(1) by simp
  obtain r gc1 w1 where g:
    "GradioAPIClient_generate_response gc q ml t p (JStr ''/generate_response'') w = (r, gc1, w1)"
    by (metis prod_cases3)
  from g obtain evs1 where e1: "trace w1 = trace w @ evs1" "evs1 \<noteq> []"
    "filter is_sleep evs1 = []" "\<not> is_sleep (last evs1)"
    by (rule gen_events_no_sleep)
  show ?case
  proof (cases r)
    case (Inl e)
    with Cons.prems(2) g have
      "batch_loop ml t p d n (Suc i) rest (results @ [error_item i q e]) gc1 w1 = (results', gc', w')"
      by simp
    from Cons.IH [OF n' this] obtain new evs where
      ih: "results' = (results @ [error_item i q e]) @ new" "trace w' = trace w1 @ evs"
          "paced d (Suc i) rest new evs" by blast
    have "item_for i q (error_item i q e)" by (auto simp add: item_for_def)
    with ih(3) e1 have "paced d i (q # rest) (error_item i q e # new) (evs1 @ evs)"
      by (intro paced_Cons_quiet) simp_all
    with ih(1,2) e1(1) show ?thesis by auto
  next
    case (Inr resp)
    have it: "item_for i q (success_item i q resp)" by (auto simp add: item_for_def)
    show ?thesis
    proof (cases "rest = []")
      case True
      with Cons.prems(1) have "\<not> int i < int n - 1" by simp
      with Cons.prems(2) g Inr have
        "batch_loop ml t p d n (Suc i) rest (results @ [success_item i q resp]) gc1 w1 = (results', gc', w')"
        by simp
      from Cons.IH [OF n' this] obtain new evs where
        ih: "results' = (results @ [success_item i q resp]) @ new" "trace w' = trace w1 @ evs"
            "paced d (Suc i) rest new evs" by blast
      from ih(3) it True e1 have "paced d i (q # rest) (success_item i q resp # new) (evs1 @ evs)"
        by (intro paced_Cons_quiet) simp_all
      with ih(1,2) e1(1) show ?thesis by auto
    next
      case False
      with Cons.prems(1) have "int i < int n - 1" by (cases rest) simp_all
      with Cons.prems(2) g Inr sleep_ok_sleeps [OF assms, of w1] have
        "batch_loop ml t p d n (Suc i) rest (results @ [success_item i q resp]) gc1
           (w1\<lparr>trace := trace w1 @ [Sleep d]\<rparr>) = (results', gc', w')"
        by simp
      from Cons.IH [OF n' this] obtain new evs where
        ih: "results' = (results @ [success_item i q resp]) @ new"
            "trace w' = trace (w1\<lparr>trace := trace w1 @ [Sleep d]\<rparr>) @ evs"
            "paced d (Suc i) rest new evs" by blast
      from ih(3) it False e1 have
        "paced d i (q # rest) (success_item i q resp # new) (evs1 @ Sleep d # evs)"
        by (intro paced_Cons_sleep) simp_all
      with ih(1,2) e1(1) show ?thesis by auto
    qed
  qed
qed

lemma gen_call_shape:
  assumes "GradioAPIClient_generate_response self u ml t p (JStr ''/generate_response'') w
             = (res, self', w')"
  shows "\<exists>calls. trace w' = trace w @ calls \<and> outcomes w' = outcomes w \<and>
           item_calls u ml t p calls \<and>
           (case res of
              Inr resp \<Rightarrow> answered (outcomes w) (length (trace w)) calls resp
            | Inl e \<Rightarrow> failed (outcomes w) (length (trace w)) calls)"
  using assms
  by (auto simp add: GradioAPIClient_generate_response_def GradioAPIClient_ensure_connection_def
      GradioAPIClient_connect_def client_predict_def external_def item_calls_def answered_def failed_def
      split: outcome.splits if_splits option.splits)

lemma sleep_not_ok:
  "\<not> sleep_ok d \<Longrightarrow> \<exists>e. sleep d w = (Inl e, w)"
  by (auto simp add: sleep_ok_def sleep_def split: option.splits pyfloat.splits)

lemma batch_layout_Cons:
  assumes "item_step d ml t p oc pos i q (rest = []) items seg"
    "batch_layout d ml t p oc (pos + length seg) (Suc i) rest groups segs"
  shows "batch_layout d ml t p oc pos i (q # rest) (items # groups) (seg # segs)"
  using assms by simp

lemma batch_loop_layout:
  "n = i + length qs \<Longrightarrow>
   batch_loop ml t p d n i qs results gc w = (results', gc', w') \<Longrightarrow>
   \<exists>groups segs. results' = results @ concat groups \<and> trace w' = trace w @ concat segs \<and>
      outcomes w' = outcomes w \<and>
      batch_layout d ml t p (outcomes w) (length (trace w)) i qs groups segs"
proof (induction qs arbitrary: i results gc w)
  case Nil
  have "batch_layout d ml t p (outcomes w) (length (trace w)) i [] [] []" by simp
  with Nil show ?case by (intro exI [of _ "[]"]) simp
next
  case (Cons q rest)
  have n': "n = Suc i + length rest" using Cons.prems(1) by simp
  obtain r gc1 w1 where g:
    "GradioAPIClient_generate_response gc q ml t p (JStr ''/generate_response'') w = (r, gc1, w1)"
    by (metis prod_cases3)
  from gen_call_shape [OF g] obtain calls where c: "trace w1 = trace w @ calls"
    "outcomes w1 = outcomes w" "item_calls q ml t p calls"
    "case r of Inr resp \<Rightarrow> answered (outcomes w) (length (trace w)) calls resp
             | Inl e \<Rightarrow> failed (outcomes w) (length (trace w)) calls"
    by blast
  have step: "\<exists>items seg w2.
      item_step d ml t p (outcomes w) (length (trace w)) i q (rest = []) items seg \<and>
      trace w2 = trace w @ seg \<and> outcomes w2 = outcomes w \<and>
      batch_loop ml t p d n (Suc i) rest (results @ items) gc1 w2 = (results', gc', w')"
  proof (cases r)
    case (Inl e)
    with Cons.prems(2) g have
      "batch_loop ml t p d n (Suc i) rest (results @ [error_item i q e]) gc1 w1 = (results', gc', w')"
      by simp
    moreover from c Inl have
      "item_step d ml t p (outcomes w) (length (trace w)) i q (rest = []) [error_item i q e] calls"
      by (auto simp add: item_step_def)
    ultimately show ?thesis using c(1,2)
      by (intro exI [of _ "[error_item i q e]"] exI [of _ calls] exI [of _ w1]) simp
  next
    case (Inr resp)
    with c(4) have a: "answered (outcomes w) (length (trace w)) calls resp" by simp
    show ?thesis
    proof (cases "rest = []")
      case True
      with Cons.prems(1) have "\<not> int i < int n - 1" by simp
      with Cons.prems(2) g Inr have
        "batch_loop ml t p d n (Suc i) rest (results @ [success_item i q resp]) gc1 w1 = (results', gc', w')"
        by simp
      moreover from c(3) a True have
        "item_step d ml t p (outcomes w) (length (trace w)) i q (rest = [])
           [success_item i q resp] calls"
        by (auto simp add: item_step_def)
      ultimately show ?thesis using c(1,2)
        by (intro exI [of _ "[success_item i q resp]"] exI [of _ calls] exI [of _ w1]) simp
    next
      case False
      with Cons.prems(1) have lt: "int i < int n - 1" by (cases rest) simp_all
      show ?thesis
      proof (cases "sleep_ok d")
        case True
        with Cons.prems(2) g Inr lt sleep_ok_sleeps [OF True, of w1] have
          "batch_loop ml t p d n (Suc i) rest (results @ [success_item i q resp]) gc1
             (w1\<lparr>trace := trace w1 @ [Sleep d]\<rparr>) = (results', gc', w')"
          by simp
        moreover from c(3) a False True have
          "item_step d ml t p (outcomes w) (length (trace w)) i q (rest = [])
             [success_item i q resp] (calls @ [Sleep d])"
          by (auto simp add: item_step_def)
        moreover have "trace (w1\<lparr>trace := trace w1 @ [Sleep d]\<rparr>) = trace w @ calls @ [Sleep d]"
          "outcomes (w1\<lparr>trace := trace w1 @ [Sleep d]\<rparr>) = outcomes w"
          using c(1,2) by simp_all
        ultimately show ?thesis
          by (intro exI [of _ "[success_item i q resp]"] exI [of _ "calls @ [Sleep d]"]
                exI [of _ "w1\<lparr>trace := trace w1 @ [Sleep d]\<rparr>"]) simp
      next
        case nok: False
        from sleep_not_ok [OF nok, of w1] obtain e where s: "sleep d w1 = (Inl e, w1)" ..
        with Cons.prems(2) g Inr lt have
          "batch_loop ml t p d n (Suc i) rest
             (results @ [success_item i q resp, error_item i q e]) gc1 w1 = (results', gc', w')"
          by simp
        moreover from c(3) a False nok have
          "item_step d ml t p (outcomes w) (length (trace w)) i q (rest = [])
             [success_item i q resp, error_item i q e] calls"
          by (auto simp add: item_step_def)
        ultimately show ?thesis using c(1,2)
          by (intro exI [of _ "[success_item i q resp, error_item i q e]"] exI [of _ calls]
                exI [of _ w1]) simp
      qed
    qed
  qed
  then obtain items seg w2 where
    st: "item_step d ml t p (outcomes w) (length (trace w)) i q (rest = []) items seg"
        "trace w2 = trace w @ seg" "outcomes w2 = outcomes w"
        "batch_loop ml t p d n (Suc i) rest (results @ items) gc1 w2 = (results', gc', w')"
    by blast
  from Cons.IH [OF n' st(4)] obtain groups segs where
    ih: "results' = (results @ items) @ concat groups" "trace w' = trace w2 @ concat segs"
        "outcomes w' = outcomes w2"
        "batch_layout d ml t p (outcomes w2) (length (trace w2)) (Suc i) rest groups segs"
    by blast
  from ih(4) st(2,3) have
    "batch_layout d ml t p (outcomes w) (length (trace w) + length seg) (Suc i) rest groups segs"
    by simp
  with st(1) have
    "batch_layout d ml t p (outcomes w) (length (trace w)) i (q # rest) (items # groups) (seg # segs)"
    by (rule batch_layout_Cons)
  moreover have "results' = results @ concat (items # groups)" using ih(1) by simp
  moreover have "trace w' = trace w @ concat (seg # segs)" using ih(2) st(2) by simp
  moreover have "outcomes w' = outcomes w" using ih(3) st(3) by simp
  ultimately show ?case
    by (intro exI [of _ "items # groups"] exI [of _ "seg # segs"]) simp
qed

lemma batch_generate_accepted:
  assumes "get_json r = Inr (JObj kvs)"
    and "dict_get kvs ''questions'' (JArr []) = JArr qs"
    and "qs \<noteq> []" "length qs \<le> 10"
    and "batch_loop (dict_get kvs ''max_length'' (JFloat (DEFAULT_MAX_LENGTH cfg)))
           (dict_get kvs ''temperature'' (JFloat (DEFAULT_TEMPERATURE cfg)))
           (dict_get kvs ''top_p'' (JFloat (DEFAULT_TOP_P cfg)))
           (dict_get kvs ''delay'' (JFloat (Finite 1))) (length qs) 0 qs [] gc w = (results, gc', w')"
  shows "response_code (fst (batch_generate cfg r (Some gc, w))) = Some 200 \<and>
         batch_results (fst (batch_generate cfg r (Some gc, w))) = results \<and>
         snd (batch_generate cfg r (Some gc, w)) = (Some gc', w')"
proof -
  have "kvs \<noteq> []" using assms(2,3) by (auto simp add: dict_get_def)
  then show ?thesis
    using assms by (simp add: batch_generate_def Let_def batch_results_def response_code_def)
qed

lemma batch_one_item_per_question:
  assumes "get_json r = Inr (JObj kvs)"
    and "dict_get kvs ''questions'' (JArr []) = JArr qs"
    and "qs \<noteq> []" "length qs \<le> 10"
    and "sleep_ok (dict_get kvs ''delay'' (JFloat (Finite 1)))"
    and "out = batch_generate cfg r (Some gc, w)"
  shows "length (batch_results (fst out)) = length qs \<and>
         (\<forall>k < length qs. item_for k (qs ! k) (batch_results (fst out) ! k))"
proof -
  obtain results gc' w' where run:
    "batch_loop (dict_get kvs ''max_length'' (JFloat (DEFAULT_MAX_LENGTH cfg)))
           (dict_get kvs ''temperature'' (JFloat (DEFAULT_TEMPERATURE cfg)))
           (dict_get kvs ''top_p'' (JFloat (DEFAULT_TOP_P cfg)))
           (dict_get kvs ''delay'' (JFloat (Finite 1))) (length qs) 0 qs [] gc w = (results, gc', w')"
    by (metis prod_cases3)
  from batch_loop_paced [OF assms(5) _ run] obtain new evs' where
    p: "results = [] @ new" "paced (dict_get kvs ''delay'' (JFloat (Finite 1))) 0 qs new evs'"
    by auto
  from batch_generate_accepted [OF assms(1-4) run] assms(6)
  have "batch_results (fst out) = results" by simp
  with p show ?thesis by (simp add: paced_def)
qed

text \<open>
  Claim C2. The \<^verbatim>\<open>time.sleep\<close> of the loop stands inside the \<^verbatim>\<open>try\<close>, after the
  \<^verbatim>\<open>append\<close> of the success item: when it raises, the \<^verbatim>\<open>except\<close> branch appends an
  error item for the same index. \<^verbatim>\<open>POST /batch\<close> with two questions and \<^verbatim>\<open>delay = -1\<close>
  answers with three result items for a total of two questions.
\<close>

theorem batch_negative_delay_duplicates_item:
  "fst (serve (demo_config None) Batch
        (json_request (JObj [(''questions'', JArr [JStr ''a'', JStr ''b'']), (''delay'', JInt (- 1))]))
        (Some (demo_client (Some 0)), scripted_world [Returns (JStr ''x''), Returns (JStr ''y'')]))
   = \<lparr>body = JObj [(''status'', JStr ''completed''),
                   (''total_questions'', JInt 2),
                   (''results'', JArr
                      [JObj [(''index'', JInt 0), (''question'', JStr ''a''),
                             (''response'', JStr ''x''), (''status'', JStr ''success'')],
                       JObj [(''index'', JInt 0), (''question'', JStr ''a''),
                             (''response'', JNull),
                             (''error'', JStr ''sleep length must be non-negative''),
                             (''status'', JStr ''error'')],
                       JObj [(''index'', JInt 1), (''question'', JStr ''b''),
                             (''response'', JStr ''y''), (''status'', JStr ''success'')]]),
                   (''parameters'',
                      JObj [(''max_length'', JFloat (Finite 512)),
                            (''temperature'', JFloat (Finite (7 / 10))),
                            (''top_p'', JFloat (Finite (9 / 10))),
                            (''delay'', JInt (- 1))]),
                   (''timestamp'', JStr ''2024-01-01T00:00:00'')],
       status_code = 200\<rparr>"
  by (simp add: require_api_key_def handle_errors_def str_truthy_def success_item_def
      error_item_def batch_eval)

text \<open>
  Claim C6. The \<^verbatim>\<open>time.sleep\<close> of the loop stands inside the \<^verbatim>\<open>try\<close>, after the backend
  call: a backend call that raises jumps to the \<^verbatim>\<open>except\<close> branch and the sleep is
  skipped. \<^verbatim>\<open>POST /batch\<close> with two questions and the default delay, where the backend
  call for the first question and the reconnect both raise: the first item has status
  error, and the client is created anew and the backend called for the second question
  with no sleep in between.
\<close>

theorem batch_no_sleep_after_failed_item:
  "new_events
     (scripted_world [Raises (PyExn (OtherException ''HTTPError'') ''502''),
                      Raises (PyExn (OtherException ''HTTPError'') ''503''),
                      Returns JNull, Returns (JStr ''y'')])
     (snd (snd (batch_generate (demo_config None)
        (json_request (JObj [(''questions'', JArr [JStr ''a'', JStr ''b''])]))
        (Some (demo_client (Some 0)),
         scripted_world [Raises (PyExn (OtherException ''HTTPError'') ''502''),
                      Raises (PyExn (OtherException ''HTTPError'') ''503''),
                      Returns JNull, Returns (JStr ''y'')]))))
   = [Predict 0 [(''user_input'', JStr ''a''), (''max_length'', JFloat (Finite 512)),
                 (''temperature'', JFloat (Finite (7 / 10))), (''top_p'', JFloat (Finite (9 / 10))),
                 (''api_name'', JStr ''/generate_response'')],
      Connect ''https://backend.example/'',
      Connect ''https://backend.example/'',
      Predict 2 [(''user_input'', JStr ''b''), (''max_length'', JFloat (Finite 512)),
                 (''temperature'', JFloat (Finite (7 / 10))), (''top_p'', JFloat (Finite (9 / 10))),
                 (''api_name'', JStr ''/generate_response'')]] \<and>
   batch_results (fst (batch_generate (demo_config None)
        (json_request (JObj [(''questions'', JArr [JStr ''a'', JStr ''b''])]))
        (Some (demo_client (Some 0)),
         scripted_world [Raises (PyExn (OtherException ''HTTPError'') ''502''),
                      Raises (PyExn (OtherException ''HTTPError'') ''503''),
                      Returns JNull, Returns (JStr ''y'')])))
   = [error_item 0 (JStr ''a'') (PyExn (OtherException ''HTTPError'') ''502''),
      success_item 1 (JStr ''b'') (JStr ''y'')]"
  by (simp add: batch_eval)

section \<open>The API key check\<close>

lemma require_api_key_authorized:
  "authorized cfg r \<Longrightarrow> require_api_key cfg f r s = f r s"
  by (auto simp add: authorized_def require_api_key_def str_truthy_def Let_def split: option.splits)

lemma require_api_key_rejects:
  "\<not> authorized cfg r \<Longrightarrow> require_api_key cfg f r s = (unauthorized, s)"
  by (auto simp add: authorized_def require_api_key_def str_truthy_def Let_def split: option.splits)

lemma serve_protected:
  "key_protected rt \<Longrightarrow> serve cfg rt = require_api_key cfg (handle_errors (view cfg rt))"
  by (cases rt) simp_all

text \<open>
  Claim C7. With a key configured (a non-empty string), a request to a key-protected
  route whose provided key (the \<^verbatim>\<open>X-API-Key\<close> header when it is non-empty, else the
  \<^verbatim>\<open>api_key\<close> query argument) is absent or differs from the configured key is answered
  with 401 and the body \<^verbatim>\<open>{error, status: unauthorized}\<close>, and the process state, the
  trace of backend calls included, is left as it was; a request whose provided key is the
  configured key is handed to the route's view function.
\<close>

theorem api_key_check:
  assumes "API_KEY cfg = Some k" "k \<noteq> []" "key_protected rt"
    and "provided_key = str_or (headers r ''X-API-Key'') (args r ''api_key'')"
  shows "(provided_key \<noteq> Some k \<longrightarrow>
            serve cfg rt r s =
              (\<lparr>body = JObj [(''error'', JStr ''Invalid or missing API key''),
                             (''status'', JStr ''unauthorized'')],
                status_code = 401\<rparr>, s)) \<and>
         (provided_key = Some k \<longrightarrow> serve cfg rt r s = handle_errors (view cfg rt) r s)"
proof -
  have a: "authorized cfg r \<longleftrightarrow> provided_key = Some k"
    using assms(1,2,4) by (simp add: authorized_def)
  show ?thesis
    using a require_api_key_authorized [of cfg r "handle_errors (view cfg rt)" s]
      require_api_key_rejects [of cfg r "handle_errors (view cfg rt)" s]
    by (auto simp add: serve_protected [OF assms(3)] unauthorized_def)
qed

theorem api_key_check_witness:
  "serve (demo_config (Some ''secret'')) Generate
     \<lparr>headers = [''X-API-Key'' \<mapsto> ''wrong''], args = [''api_key'' \<mapsto> ''secret''],
       get_json = Inr (JObj [(''user_input'', JStr ''hi'')])\<rparr>
     (Some (demo_client (Some 0)), scripted_world [Returns (JStr ''answer'')])
   = (\<lparr>body = JObj [(''error'', JStr ''Invalid or missing API key''),
                    (''status'', JStr ''unauthorized'')],
       status_code = 401\<rparr>,
      (Some (demo_client (Some 0)), scripted_world [Returns (JStr ''answer'')])) \<and>
   serve (demo_config (Some ''secret'')) Generate
     \<lparr>headers = Map.empty, args = [''api_key'' \<mapsto> ''secret''],
       get_json = Inr (JObj [(''user_input'', JStr ''hi'')])\<rparr>
     (Some (demo_client (Some 0)), scripted_world [Returns (JStr ''answer'')])
   = handle_errors (generate_response (demo_config (Some ''secret'')))
     \<lparr>headers = Map.empty, args = [''api_key'' \<mapsto> ''secret''],
       get_json = Inr (JObj [(''user_input'', JStr ''hi'')])\<rparr>
     (Some (demo_client (Some 0)), scripted_world [Returns (JStr ''answer'')])"
  using
    api_key_check [where cfg = "demo_config (Some ''secret'')" and k = "''secret''"
      and rt = Generate
      and r = "\<lparr>headers = [''X-API-Key'' \<mapsto> ''wrong''], args = [''api_key'' \<mapsto> ''secret''],
                get_json = Inr (JObj [(''user_input'', JStr ''hi'')])\<rparr>"
      and s = "(Some (demo_client (Some 0)), scripted_world [Returns (JStr ''answer'')])",
      OF _ _ _ refl]
    api_key_check [where cfg = "demo_config (Some ''secret'')" and k = "''secret''"
      and rt = Generate
      and r = "\<lparr>headers = Map.empty, args = [''api_key'' \<mapsto> ''secret''],
                get_json = Inr (JObj [(''user_input'', JStr ''hi'')])\<rparr>"
      and s = "(Some (demo_client (Some 0)), scripted_world [Returns (JStr ''answer'')])",
      OF _ _ _ refl]
  by (simp add: demo_config_def str_or_def str_truthy_def)

lemma float_arg_ignores_key:
  "name \<noteq> ''api_key'' \<Longrightarrow>
   float_arg w (r\<lparr>headers := (headers r)(''X-API-Key'' := header_key),
                  args := (args r)(''api_key'' := query_key)\<rparr>) name dflt
   = float_arg w r name dflt"
  by (simp add: float_arg_def)

lemma view_ignores_key:
  "view cfg rt
     (r\<lparr>headers := (headers r)(''X-API-Key'' := header_key),
        args := (args r)(''api_key'' := query_key)\<rparr>) s
   = view cfg rt r s"
proof (cases rt)
  case Health
  then show ?thesis by (simp add: health_check_def)
next
  case Generate
  then show ?thesis
    by (simp add: generate_response_def cong: option.case_cong sum.case_cong prod.case_cong)
next
  case Ask
  then show ?thesis
    by (simp add: ask_question_def float_arg_ignores_key
        cong: option.case_cong sum.case_cong prod.case_cong if_cong)
next
  case Compare
  then show ?thesis
    by (simp add: compare_endpoints_def cong: option.case_cong sum.case_cong prod.case_cong)
next
  case Sample
  then show ?thesis by (simp add: get_sample_data_def)
next
  case Batch
  then show ?thesis
    by (simp add: batch_generate_def cong: option.case_cong sum.case_cong prod.case_cong)
qed

text \<open>
  Claim C10. With no key configured, two requests that differ in the \<^verbatim>\<open>X-API-Key\<close>
  header and the \<^verbatim>\<open>api_key\<close> query argument only (present with any value, or absent)
  get the same answer and leave the same state, on every route.
\<close>

theorem no_key_configured_key_ignored:
  assumes "\<not> str_truthy (API_KEY cfg)"
  shows "serve cfg rt
           (r\<lparr>headers := (headers r)(''X-API-Key'' := header_key),
              args := (args r)(''api_key'' := query_key)\<rparr>) s
         = serve cfg rt r s"
proof (cases "key_protected rt")
  case True
  then show ?thesis
    using assms view_ignores_key [where cfg = cfg and rt = rt and r = r and header_key = header_key
        and query_key = query_key and s = s]
    by (simp add: serve_protected require_api_key_def handle_errors_def)
next
  case False
  then have "rt = Health" by (cases rt) simp_all
  then show ?thesis by (simp add: health_check_def)
qed

theorem no_key_configured_key_ignored_witness:
  "\<not> str_truthy (API_KEY (demo_config None)) \<and>
   serve (demo_config None) Generate
     \<lparr>headers = [''X-API-Key'' \<mapsto> ''anything''], args = Map.empty,
       get_json = Inr (JObj [(''user_input'', JStr ''hi'')])\<rparr>
     (Some (demo_client (Some 0)), scripted_world [Returns (JStr ''answer'')])
   = serve (demo_config None) Generate
     \<lparr>headers = Map.empty, args = Map.empty,
       get_json = Inr (JObj [(''user_input'', JStr ''hi'')])\<rparr>
     (Some (demo_client (Some 0)), scripted_world [Returns (JStr ''answer'')])"
  using no_key_configured_key_ignored [where cfg = "demo_config None" and rt = Generate
      and r = "\<lparr>headers = Map.empty, args = Map.empty,
                 get_json = Inr (JObj [(''user_input'', JStr ''hi'')])\<rparr>"
      and header_key = "Some ''anything''" and query_key = None
      and s = "(Some (demo_client (Some 0)), scripted_world [Returns (JStr ''answer'')])"]
  by (simp add: demo_config_def str_truthy_def)

section \<open>The batch size limits\<close>

text \<open>
  Claim C5. For an authorized \<^verbatim>\<open>POST /batch\<close> whose body is an object with a list of
  questions: an empty list and a list of more than ten questions are answered with 400
  (status \<^verbatim>\<open>bad_request\<close>) and the process state, the trace of backend calls included,
  is left as it was. A list of exactly ten questions is answered with 200, status
  \<^verbatim>\<open>completed\<close> and a total of 10, and it is processed: the result list and the calls
  of the run divide into one group of items and one segment of calls for every question,
  in the order of the questions; every segment has at least one call, and its
  \<^verbatim>\<open>predict\<close> calls carry that question and the parameters of the request; a success
  item carries the index, the question and the answer that the backend returned to the
  last call of the segment, an error item the index and the question of calls that
  failed.
\<close>

theorem batch_size_limits:
  assumes "get_json r = Inr (JObj kvs)"
    and "dict_get kvs ''questions'' (JArr []) = JArr qs"
    and "authorized cfg r"
    and "out = serve cfg Batch r (Some gc, w)"
  shows "(qs = [] \<or> 10 < length qs \<longrightarrow>
            status_code (fst out) = 400 \<and>
            body_field ''status'' (fst out) = Some (JStr ''bad_request'') \<and>
            snd out = (Some gc, w)) \<and>
         (length qs = 10 \<longrightarrow>
            status_code (fst out) = 200 \<and>
            body_field ''status'' (fst out) = Some (JStr ''completed'') \<and>
            body_field ''total_questions'' (fst out) = Some (JInt 10) \<and>
            10 \<le> length (batch_results (Inr (fst out))) \<and>
            new_events w (snd (snd out)) \<noteq> [] \<and>
            (\<exists>groups segs.
               batch_results (Inr (fst out)) = concat groups \<and>
               new_events w (snd (snd out)) = concat segs \<and>
               batch_layout (dict_get kvs ''delay'' (JFloat (Finite 1)))
                 (dict_get kvs ''max_length'' (JFloat (DEFAULT_MAX_LENGTH cfg)))
                 (dict_get kvs ''temperature'' (JFloat (DEFAULT_TEMPERATURE cfg)))
                 (dict_get kvs ''top_p'' (JFloat (DEFAULT_TOP_P cfg)))
                 (outcomes w) (length (trace w)) 0 qs groups segs))"
proof -
  have o: "out = handle_errors (batch_generate cfg) r (Some gc, w)"
    using assms(3,4) by (simp add: require_api_key_authorized)
  have rej: "qs = [] \<or> 10 < length qs \<Longrightarrow>
      \<exists>m. batch_generate cfg r (Some gc, w) = (Inr (bad_request m), (Some gc, w))"
    using assms(1,2) by (auto simp add: batch_generate_def)
  have "qs = [] \<or> 10 < length qs \<Longrightarrow>
          status_code (fst out) = 400 \<and>
          body_field ''status'' (fst out) = Some (JStr ''bad_request'') \<and>
          snd out = (Some gc, w)"
  proof -
    assume "qs = [] \<or> 10 < length qs"
    from rej [OF this] obtain m where
      "batch_generate cfg r (Some gc, w) = (Inr (bad_request m), (Some gc, w))" ..
    then show ?thesis
      unfolding o by (simp add: handle_errors_def bad_request_def body_field_def)
  qed
  moreover have "length qs = 10 \<Longrightarrow>
            status_code (fst out) = 200 \<and>
            body_field ''status'' (fst out) = Some (JStr ''completed'') \<and>
            body_field ''total_questions'' (fst out) = Some (JInt 10) \<and>
            10 \<le> length (batch_results (Inr (fst out))) \<and>
            new_events w (snd (snd out)) \<noteq> [] \<and>
            (\<exists>groups segs.
               batch_results (Inr (fst out)) = concat groups \<and>
               new_events w (snd (snd out)) = concat segs \<and>
               batch_layout (dict_get kvs ''delay'' (JFloat (Finite 1)))
                 (dict_get kvs ''max_length'' (JFloat (DEFAULT_MAX_LENGTH cfg)))
                 (dict_get kvs ''temperature'' (JFloat (DEFAULT_TEMPERATURE cfg)))
                 (dict_get kvs ''top_p'' (JFloat (DEFAULT_TOP_P cfg)))
                 (outcomes w) (length (trace w)) 0 qs groups segs)"
  proof -
    assume len: "length qs = 10"
    then have ne: "qs \<noteq> []" by auto
    then have k: "kvs \<noteq> []" using assms(2) by (auto simp add: dict_get_def)
    obtain results gc' w' where run:
      "batch_loop (dict_get kvs ''max_length'' (JFloat (DEFAULT_MAX_LENGTH cfg)))
           (dict_get kvs ''temperature'' (JFloat (DEFAULT_TEMPERATURE cfg)))
           (dict_get kvs ''top_p'' (JFloat (DEFAULT_TOP_P cfg)))
           (dict_get kvs ''delay'' (JFloat (Finite 1))) (length qs) 0 qs [] gc w = (results, gc', w')"
      by (metis prod_cases3)
    from batch_loop_trace [OF run] ne obtain evs where
      e: "trace w' = trace w @ evs" "evs \<noteq> []" "length qs \<le> length results" by auto
    from batch_loop_layout [OF _ run] obtain groups segs where
      l: "results = [] @ concat groups" "trace w' = trace w @ concat segs"
         "batch_layout (dict_get kvs ''delay'' (JFloat (Finite 1)))
            (dict_get kvs ''max_length'' (JFloat (DEFAULT_MAX_LENGTH cfg)))
            (dict_get kvs ''temperature'' (JFloat (DEFAULT_TEMPERATURE cfg)))
            (dict_get kvs ''top_p'' (JFloat (DEFAULT_TOP_P cfg)))
            (outcomes w) (length (trace w)) 0 qs groups segs"
      by auto
    have "fst (batch_generate cfg r (Some gc, w)) =
        Inr \<lparr>body = JObj [(''status'', JStr ''completed''),
                                         (''total_questions'', JInt (int (length qs))),
                                         (''results'', JArr results),
                                         (''parameters'',
                                            JObj [(''max_length'', dict_get kvs ''max_length'' (JFloat (DEFAULT_MAX_LENGTH cfg))),
                                                  (''temperature'', dict_get kvs ''temperature'' (JFloat (DEFAULT_TEMPERATURE cfg))),
                                                  (''top_p'', dict_get kvs ''top_p'' (JFloat (DEFAULT_TOP_P cfg))),
                                                  (''delay'', dict_get kvs ''delay'' (JFloat (Finite 1)))]),
                                         (''timestamp'', JStr (now w'))],
                            status_code = 200\<rparr> \<and>
        snd (batch_generate cfg r (Some gc, w)) = (Some gc', w')"
      using assms(1,2) k ne len run by (simp add: batch_generate_def Let_def)
    then have f: "fst out =
        \<lparr>body = JObj [(''status'', JStr ''completed''),
                                         (''total_questions'', JInt (int (length qs))),
                                         (''results'', JArr results),
                                         (''parameters'',
                                            JObj [(''max_length'', dict_get kvs ''max_length'' (JFloat (DEFAULT_MAX_LENGTH cfg))),
                                                  (''temperature'', dict_get kvs ''temperature'' (JFloat (DEFAULT_TEMPERATURE cfg))),
                                                  (''top_p'', dict_get kvs ''top_p'' (JFloat (DEFAULT_TOP_P cfg))),
                                                  (''delay'', dict_get kvs ''delay'' (JFloat (Finite 1)))]),
                                         (''timestamp'', JStr (now w'))],
                            status_code = 200\<rparr>" "snd out = (Some gc', w')"
      unfolding o
      by (cases "batch_generate cfg r (Some gc, w)"; simp add: handle_errors_def)+
    have res: "batch_results (Inr (fst out)) = results"
      unfolding f by (simp add: batch_results_def)
    have evs: "new_events w (snd (snd out)) = evs"
      unfolding f using e(1) by (simp add: new_events_def)
    have "status_code (fst out) = 200" unfolding f by simp
    moreover have "body_field ''status'' (fst out) = Some (JStr ''completed'')"
      unfolding f by (simp add: body_field_def)
    moreover have "body_field ''total_questions'' (fst out) = Some (JInt 10)"
      unfolding f using len by (simp add: body_field_def)
    moreover have "10 \<le> length (batch_results (Inr (fst out)))"
      unfolding res using e(3) len by simp
    moreover have "new_events w (snd (snd out)) \<noteq> []"
      unfolding evs using e(2) .
    moreover have "batch_results (Inr (fst out)) = concat groups"
      unfolding res using l(1) by simp
    moreover have "new_events w (snd (snd out)) = concat segs"
      unfolding evs using e(1) l(2) by simp
    ultimately show ?thesis using l(3) by blast
  qed
  ultimately show ?thesis by blast
qed

theorem batch_size_limits_witness:
  "status_code (fst (serve (demo_config None) Batch
       (json_request (JObj [(''questions'', JArr [])]))
       (Some (demo_client (Some 0)), counting_world))) = 400 \<and>
   snd (serve (demo_config None) Batch
       (json_request (JObj [(''questions'', JArr [])]))
       (Some (demo_client (Some 0)), counting_world))
     = (Some (demo_client (Some 0)), counting_world) \<and>
   status_code (fst (serve (demo_config None) Batch
       (json_request (JObj [(''questions'', JArr (JStr ''k'' # ten_questions))]))
       (Some (demo_client (Some 0)), counting_world))) = 400 \<and>
   snd (serve (demo_config None) Batch
       (json_request (JObj [(''questions'', JArr (JStr ''k'' # ten_questions))]))
       (Some (demo_client (Some 0)), counting_world))
     = (Some (demo_client (Some 0)), counting_world) \<and>
   status_code (fst (serve (demo_config None) Batch
       (json_request (JObj [(''questions'', JArr ten_questions)]))
       (Some (demo_client (Some 0)), counting_world))) = 200 \<and>
   batch_results (Inr (fst (serve (demo_config None) Batch
       (json_request (JObj [(''questions'', JArr ten_questions)]))
       (Some (demo_client (Some 0)), counting_world))))
     = map (\<lambda>(i, q). success_item i q (JInt (2 * int i))) (enumerate 0 ten_questions) \<and>
   new_events counting_world (snd (snd (serve (demo_config None) Batch
       (json_request (JObj [(''questions'', JArr ten_questions)]))
       (Some (demo_client (Some 0)), counting_world))))
     = concat (map (\<lambda>q. [Predict 0 (predict_kwargs q (JFloat (Finite 512))
                                   (JFloat (Finite (7 / 10))) (JFloat (Finite (9 / 10)))
                                   (JStr ''/generate_response'')),
                            Sleep (JFloat (Finite 1))]) (butlast ten_questions)) @
       [Predict 0 (predict_kwargs (last ten_questions) (JFloat (Finite 512))
                     (JFloat (Finite (7 / 10))) (JFloat (Finite (9 / 10)))
                     (JStr ''/generate_response''))]"
proof -
  have a: "authorized (demo_config None) r" for r
    by (simp add: authorized_def demo_config_def)
  note rej0 = batch_size_limits [where cfg = "demo_config None" and gc = "demo_client (Some 0)"
      and w = counting_world and kvs = "[(''questions'', JArr [])]" and qs = "[]"
      and r = "json_request (JObj [(''questions'', JArr [])])", OF _ _ a refl]
  note rej11 = batch_size_limits [where cfg = "demo_config None" and gc = "demo_client (Some 0)"
      and w = counting_world
      and kvs = "[(''questions'', JArr (JStr ''k'' # ten_questions))]"
      and qs = "JStr ''k'' # ten_questions"
      and r = "json_request (JObj [(''questions'', JArr (JStr ''k'' # ten_questions))])",
      OF _ _ a refl]
  note acc = batch_size_limits [where cfg = "demo_config None" and gc = "demo_client (Some 0)"
      and w = counting_world and kvs = "[(''questions'', JArr ten_questions)]"
      and qs = "ten_questions"
      and r = "json_request (JObj [(''questions'', JArr ten_questions)])", OF _ _ a refl]
  have r0: "status_code (fst (serve (demo_config None) Batch
       (json_request (JObj [(''questions'', JArr [])]))
       (Some (demo_client (Some 0)), counting_world))) = 400 \<and>
   snd (serve (demo_config None) Batch
       (json_request (JObj [(''questions'', JArr [])]))
       (Some (demo_client (Some 0)), counting_world))
     = (Some (demo_client (Some 0)), counting_world)"
    using rej0 by (simp add: json_request_def dict_get_def)
  have r11: "status_code (fst (serve (demo_config None) Batch
       (json_request (JObj [(''questions'', JArr (JStr ''k'' # ten_questions))]))
       (Some (demo_client (Some 0)), counting_world))) = 400 \<and>
   snd (serve (demo_config None) Batch
       (json_request (JObj [(''questions'', JArr (JStr ''k'' # ten_questions))]))
       (Some (demo_client (Some 0)), counting_world))
     = (Some (demo_client (Some 0)), counting_world)"
    using rej11 by (simp add: json_request_def dict_get_def ten_questions_def)
  have r10: "status_code (fst (serve (demo_config None) Batch
       (json_request (JObj [(''questions'', JArr ten_questions)]))
       (Some (demo_client (Some 0)), counting_world))) = 200"
    using acc by (simp add: json_request_def dict_get_def ten_questions_def)
  have run: "serve (demo_config None) Batch
       (json_request (JObj [(''questions'', JArr ten_questions)]))
       (Some (demo_client (Some 0)), counting_world) =
       handle_errors (batch_generate (demo_config None))
         (json_request (JObj [(''questions'', JArr ten_questions)]))
         (Some (demo_client (Some 0)), counting_world)"
    by (simp add: require_api_key_authorized [OF a])
  have res: "batch_results (Inr (fst (serve (demo_config None) Batch
       (json_request (JObj [(''questions'', JArr ten_questions)]))
       (Some (demo_client (Some 0)), counting_world))))
     = map (\<lambda>(i, q). success_item i q (JInt (2 * int i))) (enumerate 0 ten_questions)"
    unfolding run
    by (simp add: handle_errors_def ten_questions_def counting_world_def batch_generate_def
        dict_get_def sleep_def predict_kwargs_def Let_def batch_results_def
        GradioAPIClient_generate_response_def GradioAPIClient_ensure_connection_def
        client_predict_def external_def now_def demo_config_def json_request_def demo_client_def)
  have evs: "new_events counting_world (snd (snd (serve (demo_config None) Batch
       (json_request (JObj [(''questions'', JArr ten_questions)]))
       (Some (demo_client (Some 0)), counting_world))))
     = concat (map (\<lambda>q. [Predict 0 (predict_kwargs q (JFloat (Finite 512))
                                   (JFloat (Finite (7 / 10))) (JFloat (Finite (9 / 10)))
                                   (JStr ''/generate_response'')),
                            Sleep (JFloat (Finite 1))]) (butlast ten_questions)) @
       [Predict 0 (predict_kwargs (last ten_questions) (JFloat (Finite 512))
                     (JFloat (Finite (7 / 10))) (JFloat (Finite (9 / 10)))
                     (JStr ''/generate_response''))]"
    unfolding run
    by (simp add: handle_errors_def ten_questions_def counting_world_def batch_generate_def
        dict_get_def sleep_def predict_kwargs_def Let_def new_events_def
        GradioAPIClient_generate_response_def GradioAPIClient_ensure_connection_def
        client_predict_def external_def now_def demo_config_def json_request_def demo_client_def)
  from r0 r11 r10 res evs show ?thesis by blast
qed

section \<open>Error answers\<close>









end
